theory Spec2Isabelle
  imports Complex_Main "HOL-Library.Word"
begin

section \<open>The memU Go SDK: retry policy, error classifier and request executor\<close>

text \<open>
  A shallow embedding of \<^verbatim>\<open>models.go\<close> (retry policies), \<^verbatim>\<open>errors.go\<close> (the error
  types and their constructors), \<^verbatim>\<open>options.go\<close> (client options) and the methods
  \<^verbatim>\<open>request\<close> and \<^verbatim>\<open>raiseForStatus\<close> of \<^verbatim>\<open>client.go\<close>.

  Conventions.
  \<^item> Go's \<^verbatim>\<open>int\<close> (attempt numbers, status codes, retry counts) is \<open>int\<close>: no property
    below depends on its width, except the conversion \<^verbatim>\<open>uint(attempt)\<close>, which is written out.
  \<^item> \<^verbatim>\<open>time.Duration\<close> is a signed 64-bit count of nanoseconds: a \<open>64 word\<close>, read
    with \<open>sint\<close>, compared with \<open><s\<close>; multiplication and shifts wrap as in Go.
  \<^item> A Go \<^verbatim>\<open>error\<close> value is its message text; \<^verbatim>\<open>nil\<close> is \<open>None\<close>.
  \<^item> \<^verbatim>\<open>map[string]interface{}\<close> is a map \<open>string \<rightharpoonup> json\<close>; the nil map is \<open>None\<close>.
  \<^item> \<^verbatim>\<open>float64\<close> values are carried as exact rationals (or one of the three
    non-finite values); the rounding of floating-point operations is not modelled.
\<close>

subsection \<open>Durations and formatting\<close>

type_synonym duration = "64 word"

definition Second :: duration where
  "Second = 1000000000"

text \<open>\<^verbatim>\<open>uint(attempt)\<close>: conversion of a 64-bit \<^verbatim>\<open>int\<close> to \<^verbatim>\<open>uint\<close> keeps the bit pattern.\<close>

definition uint_of_int :: "int \<Rightarrow> nat" where
  "uint_of_int i = nat (i mod 2 ^ 64)"

text \<open>The verb \<^verbatim>\<open>%d\<close> of \<^verbatim>\<open>fmt.Sprintf\<close>: decimal digits, with a minus sign below zero.\<close>

definition digit_char :: "nat \<Rightarrow> char" where
  "digit_char d =
     (if d = 0 then CHR ''0'' else if d = 1 then CHR ''1'' else if d = 2 then CHR ''2''
      else if d = 3 then CHR ''3'' else if d = 4 then CHR ''4'' else if d = 5 then CHR ''5''
      else if d = 6 then CHR ''6'' else if d = 7 then CHR ''7'' else if d = 8 then CHR ''8''
      else CHR ''9'')"

fun fmt_nat :: "nat \<Rightarrow> string" where
  "fmt_nat n = (if n < 10 then [digit_char n] else fmt_nat (n div 10) @ [digit_char (n mod 10)])"

declare fmt_nat.simps [simp del]

definition fmt_d :: "int \<Rightarrow> string" where
  "fmt_d i = (if i < 0 then CHR ''-'' # fmt_nat (nat (- i)) else fmt_nat (nat i))"

subsection \<open>Retry policies (models.go)\<close>

record RetryConfig =
  MaxRetries :: int
  BaseDelay :: duration
  MaxDelay :: duration
  RetryableStatusCodes :: "int \<rightharpoonup> bool"

text \<open>The interface \<^verbatim>\<open>RetryPolicy\<close>: its two methods.\<close>

record RetryPolicy =
  ShouldRetry :: "int \<Rightarrow> int \<Rightarrow> string option \<Rightarrow> bool"
  GetBackoff :: "int \<Rightarrow> duration"

definition DefaultRetryConfig :: RetryConfig where
  "DefaultRetryConfig =
     \<lparr> MaxRetries = 3,
       BaseDelay = 1 * Second,
       MaxDelay = 32 * Second,
       RetryableStatusCodes =
         [429 \<mapsto> True, 500 \<mapsto> True, 502 \<mapsto> True, 503 \<mapsto> True, 504 \<mapsto> True] \<rparr>"

text \<open>Indexing a \<^verbatim>\<open>map[int]bool\<close>: a missing key reads as \<^verbatim>\<open>false\<close>.\<close>

definition map_index_bool :: "(int \<rightharpoonup> bool) \<Rightarrow> int \<Rightarrow> bool" where
  "map_index_bool m k = (case m k of None \<Rightarrow> False | Some b \<Rightarrow> b)"

definition defaultRetryPolicy_ShouldRetry ::
  "RetryConfig \<Rightarrow> int \<Rightarrow> int \<Rightarrow> string option \<Rightarrow> bool" where
  "defaultRetryPolicy_ShouldRetry config attempt statusCode err =
     (if attempt \<ge> MaxRetries config then False
      else if err \<noteq> None then True
      else if statusCode > 0 then map_index_bool (RetryableStatusCodes config) statusCode
      else False)"

text \<open>
  \<^verbatim>\<open>backoff := p.config.BaseDelay * (1 << uint(attempt))\<close>: the untyped constant takes
  the type \<^verbatim>\<open>time.Duration\<close>, so the shift and the product are 64-bit operations; a
  shift count of 64 or more gives 0. The comparison with \<^verbatim>\<open>MaxDelay\<close> is signed.
\<close>

definition defaultRetryPolicy_GetBackoff :: "RetryConfig \<Rightarrow> int \<Rightarrow> duration" where
  "defaultRetryPolicy_GetBackoff config attempt =
     (let backoff = BaseDelay config * push_bit (uint_of_int attempt) 1
      in if MaxDelay config <s backoff then MaxDelay config else backoff)"

definition NewDefaultRetryPolicy :: "RetryConfig option \<Rightarrow> RetryPolicy" where
  "NewDefaultRetryPolicy config =
     (let config' = (case config of None \<Rightarrow> DefaultRetryConfig | Some c \<Rightarrow> c)
      in \<lparr> ShouldRetry = defaultRetryPolicy_ShouldRetry config',
           GetBackoff = defaultRetryPolicy_GetBackoff config' \<rparr>)"

definition noRetryPolicy_ShouldRetry :: "int \<Rightarrow> int \<Rightarrow> string option \<Rightarrow> bool" where
  "noRetryPolicy_ShouldRetry attempt statusCode err = False"

definition noRetryPolicy_GetBackoff :: "int \<Rightarrow> duration" where
  "noRetryPolicy_GetBackoff attempt = 0"

definition NewNoRetryPolicy :: RetryPolicy where
  "NewNoRetryPolicy =
     \<lparr> ShouldRetry = noRetryPolicy_ShouldRetry, GetBackoff = noRetryPolicy_GetBackoff \<rparr>"

text \<open>
  \<^verbatim>\<open>customRetryPolicy\<close>: the struct's fields \<^verbatim>\<open>maxRetries\<close>, \<^verbatim>\<open>shouldRetry\<close> and
  \<^verbatim>\<open>getBackoff\<close> are the first arguments; the two function values are taken non-nil.
\<close>

definition customRetryPolicy_ShouldRetry ::
  "int \<Rightarrow> (int \<Rightarrow> int \<Rightarrow> string option \<Rightarrow> bool) \<Rightarrow> int \<Rightarrow> int \<Rightarrow> string option \<Rightarrow> bool" where
  "customRetryPolicy_ShouldRetry maxRetries' shouldRetry attempt statusCode err =
     (if attempt \<ge> maxRetries' then False else shouldRetry attempt statusCode err)"

definition customRetryPolicy_GetBackoff :: "(int \<Rightarrow> duration) \<Rightarrow> int \<Rightarrow> duration" where
  "customRetryPolicy_GetBackoff getBackoff attempt = getBackoff attempt"

definition NewCustomRetryPolicy ::
  "int \<Rightarrow> (int \<Rightarrow> int \<Rightarrow> string option \<Rightarrow> bool) \<Rightarrow> (int \<Rightarrow> duration) \<Rightarrow> RetryPolicy" where
  "NewCustomRetryPolicy maxRetries' shouldRetry getBackoff =
     \<lparr> ShouldRetry = customRetryPolicy_ShouldRetry maxRetries' shouldRetry,
       GetBackoff = customRetryPolicy_GetBackoff getBackoff \<rparr>"

subsection \<open>Decoded payloads and the error types (errors.go)\<close>

text \<open>
  A \<^verbatim>\<open>float64\<close>: an exact rational, or one of the non-finite values that
  \<^verbatim>\<open>strconv.ParseFloat\<close> can return.
\<close>

datatype float64 = Finite rat | PosInf | NegInf | NaN

text \<open>
  The values \<^verbatim>\<open>encoding/json\<close> stores in an \<^verbatim>\<open>interface{}\<close>. A nested object lists
  its members in the order of the text; as a Go map it is \<open>map_of\<close> of the reversed list
  (a later duplicate key wins).
\<close>

datatype json =
    JNull
  | JBool bool
  | JNumber float64
  | JString string
  | JArray "json list"
  | JObject "(string \<times> json) list"

type_synonym payload = "(string \<rightharpoonup> json) option"

record ClientError =
  Message :: string
  StatusCode :: "int option"
  Response :: payload

text \<open>
  The concrete error types embed \<^verbatim>\<open>*ClientError\<close>; an error built by \<^verbatim>\<open>fmt.Errorf\<close> is
  \<open>GoError\<close> with its text.
\<close>

datatype memu_error =
    GoError string
  | ClientErr ClientError
  | AuthenticationErr ClientError
  | RateLimitErr ClientError "float64 option"
  | NotFoundErr ClientError
  | ValidationErr ClientError

text \<open>
  \<^verbatim>\<open>if msg, ok := response["message"].(string); ok && msg != ""\<close>, guarded by
  \<^verbatim>\<open>response != nil\<close>: the override used by three of the constructors.
\<close>

definition message_or :: "string \<Rightarrow> payload \<Rightarrow> string" where
  "message_or dflt response =
     (case response of
        None \<Rightarrow> dflt
      | Some m \<Rightarrow>
          (case m ''message'' of
             Some (JString msg) \<Rightarrow> if msg \<noteq> [] then msg else dflt
           | _ \<Rightarrow> dflt))"

definition NewAuthenticationError :: "int option \<Rightarrow> payload \<Rightarrow> memu_error" where
  "NewAuthenticationError statusCode response =
     AuthenticationErr
       \<lparr> Message = message_or ''Authentication failed. Please check your API key.'' response,
         StatusCode = statusCode,
         Response = response \<rparr>"

definition NewRateLimitError ::
  "string \<Rightarrow> float64 option \<Rightarrow> int option \<Rightarrow> payload \<Rightarrow> memu_error" where
  "NewRateLimitError message retryAfter statusCode response =
     RateLimitErr \<lparr> Message = message, StatusCode = statusCode, Response = response \<rparr> retryAfter"

definition NewNotFoundError :: "string \<Rightarrow> int option \<Rightarrow> payload \<Rightarrow> memu_error" where
  "NewNotFoundError path statusCode response =
     NotFoundErr
       \<lparr> Message = message_or (''Resource not found: '' @ path) response,
         StatusCode = statusCode,
         Response = response \<rparr>"

definition NewValidationError :: "int option \<Rightarrow> payload \<Rightarrow> memu_error" where
  "NewValidationError statusCode response =
     ValidationErr
       \<lparr> Message =
           message_or ''Request validation failed. Please check your request parameters.'' response,
         StatusCode = statusCode,
         Response = response \<rparr>"

definition NewClientError :: "string \<Rightarrow> int option \<Rightarrow> payload \<Rightarrow> memu_error" where
  "NewClientError message statusCode response =
     ClientErr \<lparr> Message = message, StatusCode = statusCode, Response = response \<rparr>"

text \<open>The embedded \<^verbatim>\<open>*ClientError\<close> of an SDK error, when it has one.\<close>

fun base_error :: "memu_error \<Rightarrow> ClientError option" where
  "base_error (GoError _) = None"
| "base_error (ClientErr e) = Some e"
| "base_error (AuthenticationErr e) = Some e"
| "base_error (RateLimitErr e _) = Some e"
| "base_error (NotFoundErr e) = Some e"
| "base_error (ValidationErr e) = Some e"

subsection \<open>The error classifier (client.go, raiseForStatus)\<close>

definition raiseForStatus :: "int \<Rightarrow> string \<Rightarrow> payload \<Rightarrow> memu_error" where
  "raiseForStatus statusCode path response =
     (let status = Some statusCode
      in if statusCode = 401 then NewAuthenticationError status response
         else if statusCode = 404 then NewNotFoundError path status response
         else if statusCode = 422 then NewValidationError status response
         else NewClientError (''HTTP '' @ fmt_d statusCode @ '': '' @ path) status response)"

subsection \<open>The client and its options (client.go, options.go)\<close>

text \<open>
  The struct \<^verbatim>\<open>Client\<close>. Its field \<^verbatim>\<open>httpClient\<close> is the network: what it answers
  to each attempt is an argument of \<open>request\<close> below.
\<close>

record Client =
  apiKey :: string
  baseURL :: string
  maxRetries :: int
  timeout :: duration
  retryPolicy :: RetryPolicy

definition WithBaseURL :: "string \<Rightarrow> Client \<Rightarrow> Client" where
  "WithBaseURL url c = c\<lparr>baseURL := url\<rparr>"

definition WithTimeout :: "duration \<Rightarrow> Client \<Rightarrow> Client" where
  "WithTimeout t c = c\<lparr>timeout := t\<rparr>"

definition WithMaxRetries :: "int \<Rightarrow> Client \<Rightarrow> Client" where
  "WithMaxRetries retries c = c\<lparr>maxRetries := retries\<rparr>"

definition WithRetryPolicy :: "RetryPolicy \<Rightarrow> Client \<Rightarrow> Client" where
  "WithRetryPolicy policy c = c\<lparr>retryPolicy := policy\<rparr>"

type_synonym header = "string \<rightharpoonup> string"

definition defaultHeaders :: "Client \<Rightarrow> header" where
  "defaultHeaders c =
     [''Authorization'' \<mapsto> ''Bearer '' @ apiKey c,
      ''Content-Type'' \<mapsto> ''application/json'',
      ''User-Agent'' \<mapsto> ''memu-go-sdk/1.0.0'']"

subsection \<open>The standard library and the network\<close>

text \<open>
  The functions of Go's standard library that \<^verbatim>\<open>request\<close> calls are parameters of the
  model, collected in a record:
  \<^item> \<open>Marshal\<close> is \<^verbatim>\<open>json.Marshal\<close> on the request body: the error, or the bytes;
  \<^item> \<open>Unmarshal\<close> is \<^verbatim>\<open>json.Unmarshal\<close> into a nil \<^verbatim>\<open>map[string]interface{}\<close>: the
    error, or the map it leaves (still nil for the JSON text \<^verbatim>\<open>null\<close>);
  \<^item> \<open>ParseFloat\<close> is \<^verbatim>\<open>strconv.ParseFloat(s, 64)\<close>: \<open>None\<close> when it returns an error;
  \<^item> \<open>NewRequestWithContext\<close> is \<^verbatim>\<open>http.NewRequestWithContext\<close> on a method and a URL:
    the error it returns, if any;
  \<^item> \<open>ConvOutOfRange\<close> is the implementation-dependent result of converting to
    \<^verbatim>\<open>int64\<close> a \<^verbatim>\<open>float64\<close> that \<^verbatim>\<open>int64\<close> cannot represent.
\<close>

record 'b stdlib =
  Marshal :: "'b \<Rightarrow> string + string"
  Unmarshal :: "string \<Rightarrow> string + payload"
  ParseFloat :: "string \<Rightarrow> float64 option"
  NewRequestWithContext :: "string \<Rightarrow> string \<Rightarrow> string option"
  ConvOutOfRange :: "float64 \<Rightarrow> duration"

text \<open>\<^verbatim>\<open>seconds * float64(time.Second)\<close>.\<close>

fun mul_Second :: "float64 \<Rightarrow> float64" where
  "mul_Second (Finite r) = Finite (r * 1000000000)"
| "mul_Second PosInf = PosInf"
| "mul_Second NegInf = NegInf"
| "mul_Second NaN = NaN"

text \<open>
  \<^verbatim>\<open>time.Duration(f)\<close>: the fraction is discarded (truncation towards zero); a value
  outside \<^verbatim>\<open>int64\<close> converts to an implementation-dependent one.
\<close>

definition trunc_rat :: "rat \<Rightarrow> int" where
  "trunc_rat r = (if r < 0 then - \<lfloor>- r\<rfloor> else \<lfloor>r\<rfloor>)"

definition Duration_of_float :: "(float64 \<Rightarrow> duration) \<Rightarrow> float64 \<Rightarrow> duration" where
  "Duration_of_float conv f =
     (case f of
        Finite r \<Rightarrow>
          (let t = trunc_rat r
           in if - (2 ^ 63) \<le> t \<and> t < 2 ^ 63 then word_of_int t else conv f)
      | _ \<Rightarrow> conv f)"

text \<open>\<^verbatim>\<open>float64(waitTime) / float64(time.Second)\<close>.\<close>

definition seconds_of_Duration :: "duration \<Rightarrow> float64" where
  "seconds_of_Duration d = Finite (of_int (sint d) / 1000000000)"

text \<open>
  What the network does with one attempt: \<^verbatim>\<open>c.httpClient.Do\<close> fails, or it returns a
  response whose body cannot be read, or a response with a status code, a header and a
  body. \<^verbatim>\<open>Header.Get\<close> returns the empty string for a header that is absent.
\<close>

datatype http_result =
    DoError string
  | ReadAllError string
  | Respond int header string

definition Header_Get :: "header \<Rightarrow> string \<Rightarrow> string" where
  "Header_Get h k = (case h k of None \<Rightarrow> [] | Some v \<Rightarrow> v)"

record http_request =
  req_method :: string
  req_url :: string
  req_header :: header
  req_params :: "string \<rightharpoonup> string"
  req_body :: "string option"

text \<open>The effects of \<^verbatim>\<open>request\<close>, in order: requests sent and pauses slept.\<close>

datatype event = HTTPDo http_request | Sleep duration

fun is_HTTPDo :: "event \<Rightarrow> bool" where
  "is_HTTPDo (HTTPDo _) = True"
| "is_HTTPDo (Sleep _) = False"

definition attempts_made :: "event list \<Rightarrow> nat" where
  "attempts_made evs = length (filter is_HTTPDo evs)"

subsection \<open>The request executor (client.go, request)\<close>

text \<open>One turn of the loop either returns or reaches \<^verbatim>\<open>continue\<close>.\<close>

datatype 'a loop_step = Return 'a | Continue

type_synonym result = "memu_error + payload"

text \<open>
  \<^verbatim>\<open>var result map[string]interface{}\<close> and the decoding of the body: an empty body is
  not decoded; a body that \<^verbatim>\<open>json.Unmarshal\<close> rejects becomes the map with the single
  key \<^verbatim>\<open>raw\<close>.
\<close>

definition parse_response :: "'b stdlib \<Rightarrow> string \<Rightarrow> payload" where
  "parse_response L respBody =
     (if length respBody > 0
      then (case Unmarshal L respBody of
              Inl err \<Rightarrow> Some [''raw'' \<mapsto> JString respBody]
            | Inr m \<Rightarrow> m)
      else None)"

text \<open>
  The wait of a 429 response. \<^verbatim>\<open>var waitTime time.Duration\<close> starts at 0 and keeps that
  value when the header is present and \<^verbatim>\<open>ParseFloat\<close> returns an error.
\<close>

definition rate_limit_waitTime :: "'b stdlib \<Rightarrow> RetryPolicy \<Rightarrow> header \<Rightarrow> int \<Rightarrow> duration" where
  "rate_limit_waitTime L policy hdr attempt =
     (let retryAfter = Header_Get hdr ''Retry-After''
      in if retryAfter \<noteq> []
         then (case ParseFloat L retryAfter of
                 Some seconds \<Rightarrow> Duration_of_float (ConvOutOfRange L) (mul_Second seconds)
               | None \<Rightarrow> 0)
         else GetBackoff policy attempt)"

text \<open>The dispatch on the status code, after the response has been read and decoded.\<close>

definition handle_response ::
  "'b stdlib \<Rightarrow> Client \<Rightarrow> string \<Rightarrow> int \<Rightarrow> int \<Rightarrow> header \<Rightarrow> string
     \<Rightarrow> event list \<times> result loop_step" where
  "handle_response L c path attempt status hdr respBody =
     (let result = parse_response L respBody
      in if status = 429
         then (let waitTime = rate_limit_waitTime L (retryPolicy c) hdr attempt
               in if ShouldRetry (retryPolicy c) attempt status None
                  then ([Sleep waitTime], Continue)
                  else ([], Return (Inl (NewRateLimitError ''rate limit exceeded''
                                           (Some (seconds_of_Duration waitTime))
                                           (Some status) result))))
         else if status \<ge> 500
         then (if ShouldRetry (retryPolicy c) attempt status None
               then ([Sleep (GetBackoff (retryPolicy c) attempt)], Continue)
               else (let errorMsg =
                           (if length respBody > 0
                            then ''server error: '' @ fmt_d status @ '', response: '' @ respBody
                            else ''server error: '' @ fmt_d status)
                     in ([], Return (Inl (NewClientError errorMsg (Some status) result)))))
         else if status \<ge> 400
         then ([], Return (Inl (raiseForStatus status path result)))
         else ([], Return (Inr result)))"

text \<open>
  The first half of the loop body: the request body is serialized when there is one,
  the request is built for \<^verbatim>\<open>c.baseURL + path\<close>, and the default headers and the
  query parameters are set. Either step can fail, and then \<^verbatim>\<open>request\<close> returns at once.
\<close>

definition prepare ::
  "'b stdlib \<Rightarrow> Client \<Rightarrow> string \<Rightarrow> string \<Rightarrow> 'b option \<Rightarrow> (string \<rightharpoonup> string)
     \<Rightarrow> memu_error + http_request" where
  "prepare L c method path body params =
     (case (case body of
              None \<Rightarrow> Inr None
            | Some b \<Rightarrow> (case Marshal L b of
                          Inl err \<Rightarrow> Inl err
                        | Inr jsonData \<Rightarrow> Inr (Some jsonData))) of
        Inl err \<Rightarrow> Inl (GoError (''failed to marshal request body: '' @ err))
      | Inr bodyReader \<Rightarrow>
          (let url = baseURL c @ path
           in case NewRequestWithContext L method url of
                Some err \<Rightarrow> Inl (GoError (''failed to create request: '' @ err))
              | None \<Rightarrow>
                  Inr \<lparr> req_method = method, req_url = url,
                        req_header = defaultHeaders c, req_params = params,
                        req_body = bodyReader \<rparr>))"

text \<open>
  The body of the loop at one attempt, given what the network does with the request.
  Nothing is sent when the request could not be prepared.
\<close>

definition attempt_body ::
  "'b stdlib \<Rightarrow> Client \<Rightarrow> string \<Rightarrow> string \<Rightarrow> 'b option \<Rightarrow> (string \<rightharpoonup> string)
     \<Rightarrow> http_result \<Rightarrow> int \<Rightarrow> event list \<times> result loop_step" where
  "attempt_body L c method path body params net attempt =
     (case prepare L c method path body params of
        Inl err \<Rightarrow> ([], Return (Inl err))
      | Inr req \<Rightarrow>
          (case net of
             DoError err \<Rightarrow>
               (if ShouldRetry (retryPolicy c) attempt 0 (Some err)
                then ([HTTPDo req, Sleep (GetBackoff (retryPolicy c) attempt)], Continue)
                else ([HTTPDo req],
                      Return (Inl (GoError (''request failed after ''
                        @ fmt_d (attempt + 1) @ '' attempts: '' @ err)))))
           | ReadAllError err \<Rightarrow>
               ([HTTPDo req],
                Return (Inl (GoError (''failed to read response body: '' @ err))))
           | Respond status hdr respBody \<Rightarrow>
               (case handle_response L c path attempt status hdr respBody of
                  (evs, step) \<Rightarrow> (HTTPDo req # evs, step))))"

text \<open>
  \<^verbatim>\<open>for attempt := 0; ; attempt++\<close>. The network is a function from the attempt number
  to what happens to that attempt's request. Nothing bounds the loop but the policy, so
  the function is partial: \<open>None\<close> is a loop that never returns. A run returns the
  result and the effects so far.
\<close>

partial_function (option) request_loop ::
  "'b stdlib \<Rightarrow> Client \<Rightarrow> string \<Rightarrow> string \<Rightarrow> 'b option \<Rightarrow> (string \<rightharpoonup> string)
     \<Rightarrow> (int \<Rightarrow> http_result) \<Rightarrow> int \<Rightarrow> event list \<Rightarrow> (result \<times> event list) option" where
  "request_loop L c method path body params net attempt past =
     (case attempt_body L c method path body params (net attempt) attempt of
        (evs, Return r) \<Rightarrow> Some (r, past @ evs)
      | (evs, Continue) \<Rightarrow>
          request_loop L c method path body params net (attempt + 1) (past @ evs))"

definition request ::
  "'b stdlib \<Rightarrow> Client \<Rightarrow> string \<Rightarrow> string \<Rightarrow> 'b option \<Rightarrow> (string \<rightharpoonup> string)
     \<Rightarrow> (int \<Rightarrow> http_result) \<Rightarrow> (result \<times> event list) option" where
  "request L c method path body params net = request_loop L c method path body params net 0 []"

text \<open>
  A scripted network: the listed results for the first attempts, then \<open>rest\<close>.
\<close>

definition script :: "http_result list \<Rightarrow> (int \<Rightarrow> http_result) \<Rightarrow> int \<Rightarrow> http_result" where
  "script rs rest attempt =
     (if 0 \<le> attempt \<and> attempt < int (length rs) then rs ! nat attempt else rest attempt)"

section \<open>A model of Go's library for concrete runs\<close>

text \<open>
  The executor above takes the library as a parameter. Concrete runs need a library:
  the definitions below model \<^verbatim>\<open>encoding/json\<close> and \<^verbatim>\<open>strconv\<close> closely enough to
  decode the response bodies and the \<^verbatim>\<open>Retry-After\<close> values that occur in them.
\<close>

subsection \<open>Decimal numbers\<close>

definition is_digit :: "char \<Rightarrow> bool" where
  "is_digit c = (let n = (of_char c :: nat) in 48 \<le> n \<and> n \<le> 57)"

definition digit_val :: "char \<Rightarrow> nat" where
  "digit_val c = of_char c - 48"

definition nat_of_digits :: "string \<Rightarrow> nat" where
  "nat_of_digits ds = foldl (\<lambda>a c. 10 * a + digit_val c) 0 ds"

definition pow10 :: "int \<Rightarrow> rat" where
  "pow10 e = (if 0 \<le> e then 10 ^ nat e else 1 / 10 ^ nat (- e))"

text \<open>
  An optional exponent part \<^verbatim>\<open>e\<close>, \<^verbatim>\<open>e+\<close> or \<^verbatim>\<open>e-\<close> with at least one digit, and an optional
  fraction part with at least one digit (the JSON grammar).
\<close>

definition scan_exponent :: "string \<Rightarrow> (int \<times> string) option" where
  "scan_exponent s =
     (case s of
        [] \<Rightarrow> Some (0, s)
      | c # r \<Rightarrow>
          if c = CHR ''e'' \<or> c = CHR ''E''
          then (let (neg, r1) =
                      (case r of
                         [] \<Rightarrow> (False, r)
                       | x # r' \<Rightarrow>
                           if x = CHR ''-'' then (True, r')
                           else if x = CHR ''+'' then (False, r')
                           else (False, r));
                    ds = takeWhile is_digit r1
                in if ds = [] then None
                   else Some ((if neg then - 1 else 1) * int (nat_of_digits ds),
                              dropWhile is_digit r1))
          else Some (0, s))"

definition scan_fraction :: "string \<Rightarrow> (string \<times> string) option" where
  "scan_fraction s =
     (case s of
        [] \<Rightarrow> Some ([], s)
      | c # r \<Rightarrow>
          if c = CHR ''.''
          then (let fp = takeWhile is_digit r
                in if fp = [] then None else Some (fp, dropWhile is_digit r))
          else Some ([], s))"

definition decimal_value :: "bool \<Rightarrow> string \<Rightarrow> string \<Rightarrow> int \<Rightarrow> rat" where
  "decimal_value neg ip fp e =
     (if neg then - 1 else 1)
       * (of_nat (nat_of_digits ip) + of_nat (nat_of_digits fp) / 10 ^ length fp) * pow10 e"

text \<open>
  \<^verbatim>\<open>strconv.ParseFloat\<close> reports a range error for a decimal whose magnitude rounds to
  infinity, which is from \<open>2 ^ 1024 - 2 ^ 970\<close> on. Below that the model keeps the exact
  value where Go rounds to the nearest \<^verbatim>\<open>float64\<close>.
\<close>

definition float64_of_rat :: "rat \<Rightarrow> float64 option" where
  "float64_of_rat r = (if 2 ^ 1024 - 2 ^ 970 \<le> \<bar>r\<bar> then None else Some (Finite r))"

text \<open>A JSON number at the head of the text, and the rest of the text.\<close>

definition json_number :: "string \<Rightarrow> (float64 \<times> string) option" where
  "json_number s =
     (let (neg, s1) = (case s of [] \<Rightarrow> (False, s)
                       | c # r \<Rightarrow> if c = CHR ''-'' then (True, r) else (False, s));
          ip = takeWhile is_digit s1;
          s2 = dropWhile is_digit s1
      in if ip = [] \<or> (1 < length ip \<and> hd ip = CHR ''0'') then None
         else (case scan_fraction s2 of
                 None \<Rightarrow> None
               | Some (fp, s3) \<Rightarrow>
                   (case scan_exponent s3 of
                      None \<Rightarrow> None
                    | Some (e, s4) \<Rightarrow>
                        (case float64_of_rat (decimal_value neg ip fp e) of
                           None \<Rightarrow> None
                         | Some f \<Rightarrow> Some (f, s4)))))"

text \<open>
  \<^verbatim>\<open>strconv.ParseFloat(s, 64)\<close> on decimal literals: a sign, digits with an optional
  point (\<^verbatim>\<open>5\<close>, \<^verbatim>\<open>5.\<close>, \<^verbatim>\<open>.5\<close>, \<^verbatim>\<open>0.25\<close>), an optional exponent, and nothing after.
  Go also accepts hexadecimal literals, digit-separating underscores, and the words
  \<^verbatim>\<open>Inf\<close>, \<^verbatim>\<open>Infinity\<close> and \<^verbatim>\<open>NaN\<close>; this model answers \<open>None\<close> for those, and is used
  only on texts that are decimal literals or that contain a character no
  floating-point literal contains.
\<close>

definition decimal_ParseFloat :: "string \<Rightarrow> float64 option" where
  "decimal_ParseFloat s =
     (let (neg, s1) = (case s of [] \<Rightarrow> (False, s)
                       | c # r \<Rightarrow> if c = CHR ''-'' then (True, r)
                                  else if c = CHR ''+'' then (False, r) else (False, s));
          ip = takeWhile is_digit s1;
          s2 = dropWhile is_digit s1;
          (fp, s3) = (case s2 of [] \<Rightarrow> ([], s2)
                      | c # r \<Rightarrow> if c = CHR ''.''
                                 then (takeWhile is_digit r, dropWhile is_digit r)
                                 else ([], s2))
      in if ip = [] \<and> fp = [] then None
         else (case scan_exponent s3 of
                 None \<Rightarrow> None
               | Some (e, s4) \<Rightarrow>
                   if s4 = [] then float64_of_rat (decimal_value neg ip fp e) else None))"

subsection \<open>JSON strings\<close>

text \<open>
  The text after the opening quote is decoded up to the closing quote: the escapes of
  the JSON grammar, \<^verbatim>\<open>\uXXXX\<close> with UTF-16 surrogate pairs, and the replacement of a
  lone surrogate or an ill-formed UTF-8 sequence by U+FFFD, as \<^verbatim>\<open>encoding/json\<close> does.
  Every step consumes a character; the fuel is the length of the text.
\<close>

definition hex_val :: "char \<Rightarrow> nat option" where
  "hex_val c =
     (let n = (of_char c :: nat)
      in if 48 \<le> n \<and> n \<le> 57 then Some (n - 48)
         else if 97 \<le> n \<and> n \<le> 102 then Some (n - 87)
         else if 65 \<le> n \<and> n \<le> 70 then Some (n - 55)
         else None)"

definition getu4 :: "string \<Rightarrow> nat option" where
  "getu4 s =
     (case s of
        b # u # h1 # h2 # h3 # h4 # r \<Rightarrow>
          if b = CHR 0x5C \<and> u = CHR ''u''
          then (case (hex_val h1, hex_val h2, hex_val h3, hex_val h4) of
                  (Some a, Some b, Some c, Some d) \<Rightarrow> Some (((a * 16 + b) * 16 + c) * 16 + d)
                | _ \<Rightarrow> None)
          else None
      | _ \<Rightarrow> None)"

definition utf8_encode :: "nat \<Rightarrow> string" where
  "utf8_encode cp =
     (if cp < 0x80 then [char_of cp]
      else if cp < 0x800 then [char_of (0xC0 + cp div 64), char_of (0x80 + cp mod 64)]
      else if cp < 0x10000
      then [char_of (0xE0 + cp div 4096), char_of (0x80 + cp div 64 mod 64),
            char_of (0x80 + cp mod 64)]
      else [char_of (0xF0 + cp div 262144), char_of (0x80 + cp div 4096 mod 64),
            char_of (0x80 + cp div 64 mod 64), char_of (0x80 + cp mod 64)])"

definition byte_in :: "nat \<Rightarrow> nat \<Rightarrow> char \<Rightarrow> bool" where
  "byte_in lo hi c = (lo \<le> (of_char c :: nat) \<and> (of_char c :: nat) \<le> hi)"

definition utf8_valid_len :: "string \<Rightarrow> nat" where
  "utf8_valid_len s =
     (case s of
        [] \<Rightarrow> 0
      | c0 # r \<Rightarrow>
          (let b0 = (of_char c0 :: nat)
           in if b0 < 0x80 then 1
              else if 0xC2 \<le> b0 \<and> b0 \<le> 0xDF
              then (case r of
                      c1 # _ \<Rightarrow> if byte_in 0x80 0xBF c1 then 2 else 0
                    | _ \<Rightarrow> 0)
              else if 0xE0 \<le> b0 \<and> b0 \<le> 0xEF
              then (case r of
                      c1 # c2 # _ \<Rightarrow>
                        if byte_in (if b0 = 0xE0 then 0xA0 else 0x80)
                                   (if b0 = 0xED then 0x9F else 0xBF) c1
                           \<and> byte_in 0x80 0xBF c2
                        then 3 else 0
                    | _ \<Rightarrow> 0)
              else if 0xF0 \<le> b0 \<and> b0 \<le> 0xF4
              then (case r of
                      c1 # c2 # c3 # _ \<Rightarrow>
                        if byte_in (if b0 = 0xF0 then 0x90 else 0x80)
                                   (if b0 = 0xF4 then 0x8F else 0xBF) c1
                           \<and> byte_in 0x80 0xBF c2 \<and> byte_in 0x80 0xBF c3
                        then 4 else 0
                    | _ \<Rightarrow> 0)
              else 0))"

definition simple_escape :: "char \<Rightarrow> char option" where
  "simple_escape e =
     (if e = CHR 0x22 then Some (CHR 0x22)
      else if e = CHR 0x5C then Some (CHR 0x5C)
      else if e = CHR ''/'' then Some (CHR ''/'')
      else if e = CHR ''b'' then Some (CHR 0x08)
      else if e = CHR ''f'' then Some (CHR 0x0C)
      else if e = CHR ''n'' then Some (CHR 0x0A)
      else if e = CHR ''r'' then Some (CHR 0x0D)
      else if e = CHR ''t'' then Some (CHR 0x09)
      else None)"

definition emit :: "string \<Rightarrow> (string \<times> string) option \<Rightarrow> (string \<times> string) option" where
  "emit xs res = (case res of None \<Rightarrow> None | Some (str, rest) \<Rightarrow> Some (xs @ str, rest))"

definition replacement_char :: string where
  "replacement_char = utf8_encode 0xFFFD"

fun unquote :: "nat \<Rightarrow> string \<Rightarrow> (string \<times> string) option" where
  "unquote 0 s = None"
| "unquote (Suc n) s =
     (case s of
        [] \<Rightarrow> None
      | c # r \<Rightarrow>
          if c = CHR 0x22 then Some ([], r)
          else if c = CHR 0x5C
          then (case r of
                  [] \<Rightarrow> None
                | e # r' \<Rightarrow>
                    if e = CHR ''u''
                    then (case getu4 s of
                            None \<Rightarrow> None
                          | Some rr \<Rightarrow>
                              if 0xD800 \<le> rr \<and> rr < 0xE000
                              then (case getu4 (drop 6 s) of
                                      None \<Rightarrow> emit replacement_char (unquote n (drop 6 s))
                                    | Some rr1 \<Rightarrow>
                                        if rr < 0xDC00 \<and> 0xDC00 \<le> rr1 \<and> rr1 < 0xE000
                                        then emit (utf8_encode (0x10000 + (rr - 0xD800) * 1024
                                                                  + (rr1 - 0xDC00)))
                                                  (unquote n (drop 12 s))
                                        else emit replacement_char (unquote n (drop 6 s)))
                              else emit (utf8_encode rr) (unquote n (drop 6 s)))
                    else (case simple_escape e of
                            None \<Rightarrow> None
                          | Some x \<Rightarrow> emit [x] (unquote n r')))
          else if (of_char c :: nat) < 0x20 then None
          else (let k = utf8_valid_len s
                in if k = 0 then emit replacement_char (unquote n r)
                   else emit (take k s) (unquote n (drop k s))))"

definition json_string :: "string \<Rightarrow> (string \<times> string) option" where
  "json_string s = unquote (length s) s"

subsection \<open>JSON values\<close>

text \<open>
  A recursive-descent reading of the JSON grammar. The first argument is fuel: every
  call uses one unit, a value takes at least one character, and the reading starts
  with twice the length of the text and two more. The second argument is the nesting
  depth, which \<^verbatim>\<open>encoding/json\<close> limits to 10000.
\<close>

definition is_space :: "char \<Rightarrow> bool" where
  "is_space c = (c = CHR '' '' \<or> c = CHR 0x09 \<or> c = CHR 0x0A \<or> c = CHR 0x0D)"

definition skip_space :: "string \<Rightarrow> string" where
  "skip_space s = dropWhile is_space s"

definition literal :: "string \<Rightarrow> json \<Rightarrow> string \<Rightarrow> (json \<times> string) option" where
  "literal word v s =
     (if take (length word) s = word then Some (v, drop (length word) s) else None)"

definition maxNestingDepth :: nat where
  "maxNestingDepth = 10000"

fun parse_value :: "nat \<Rightarrow> nat \<Rightarrow> string \<Rightarrow> (json \<times> string) option"
  and parse_elements :: "nat \<Rightarrow> nat \<Rightarrow> string \<Rightarrow> (json list \<times> string) option"
  and parse_members :: "nat \<Rightarrow> nat \<Rightarrow> string \<Rightarrow> ((string \<times> json) list \<times> string) option"
where
  "parse_value 0 depth s = None"
| "parse_value (Suc n) depth s =
     (case skip_space s of
        [] \<Rightarrow> None
      | c # r \<Rightarrow>
          if c = CHR ''{''
          then (if maxNestingDepth < Suc depth then None
                else (case skip_space r of
                        [] \<Rightarrow> None
                      | x # r' \<Rightarrow>
                          if x = CHR ''}'' then Some (JObject [], r')
                          else (case parse_members n (Suc depth) r of
                                  None \<Rightarrow> None
                                | Some (kvs, r'') \<Rightarrow> Some (JObject kvs, r''))))
          else if c = CHR ''[''
          then (if maxNestingDepth < Suc depth then None
                else (case skip_space r of
                        [] \<Rightarrow> None
                      | x # r' \<Rightarrow>
                          if x = CHR '']'' then Some (JArray [], r')
                          else (case parse_elements n (Suc depth) r of
                                  None \<Rightarrow> None
                                | Some (vs, r'') \<Rightarrow> Some (JArray vs, r''))))
          else if c = CHR 0x22
          then (case json_string r of
                  None \<Rightarrow> None
                | Some (str, r') \<Rightarrow> Some (JString str, r'))
          else if c = CHR ''t'' then literal ''true'' (JBool True) (c # r)
          else if c = CHR ''f'' then literal ''false'' (JBool False) (c # r)
          else if c = CHR ''n'' then literal ''null'' JNull (c # r)
          else (case json_number (c # r) of
                  None \<Rightarrow> None
                | Some (f, r') \<Rightarrow> Some (JNumber f, r')))"
| "parse_elements 0 depth s = None"
| "parse_elements (Suc n) depth s =
     (case parse_value n depth s of
        None \<Rightarrow> None
      | Some (v, r) \<Rightarrow>
          (case skip_space r of
             [] \<Rightarrow> None
           | x # r' \<Rightarrow>
               if x = CHR '','' then (case parse_elements n depth r' of
                                        None \<Rightarrow> None
                                      | Some (vs, r'') \<Rightarrow> Some (v # vs, r''))
               else if x = CHR '']'' then Some ([v], r')
               else None))"
| "parse_members 0 depth s = None"
| "parse_members (Suc n) depth s =
     (case skip_space s of
        [] \<Rightarrow> None
      | q # r \<Rightarrow>
          if q \<noteq> CHR 0x22 then None
          else (case json_string r of
                  None \<Rightarrow> None
                | Some (key, r1) \<Rightarrow>
                    (case skip_space r1 of
                       [] \<Rightarrow> None
                     | colon # r2 \<Rightarrow>
                         if colon \<noteq> CHR '':'' then None
                         else (case parse_value n depth r2 of
                                 None \<Rightarrow> None
                               | Some (v, r3) \<Rightarrow>
                                   (case skip_space r3 of
                                      [] \<Rightarrow> None
                                    | x # r4 \<Rightarrow>
                                        if x = CHR '','' then (case parse_members n depth r4 of
                                                 None \<Rightarrow> None
                                               | Some (kvs, r5) \<Rightarrow> Some ((key, v) # kvs, r5))
                                        else if x = CHR ''}'' then Some ([(key, v)], r4)
                                        else None)))))"

definition json_decode :: "string \<Rightarrow> json option" where
  "json_decode data =
     (case parse_value (2 * length data + 2) 0 data of
        None \<Rightarrow> None
      | Some (v, r) \<Rightarrow> if skip_space r = [] then Some v else None)"

text \<open>
  \<^verbatim>\<open>json.Unmarshal(data, &result)\<close> for a nil \<^verbatim>\<open>result\<close> of type
  \<^verbatim>\<open>map[string]interface{}\<close>: an object fills the map, \<^verbatim>\<open>null\<close> leaves it nil, and
  any other text is an error (a syntax error, a number out of range, or a value that
  is not an object).
\<close>

definition json_Unmarshal :: "string \<Rightarrow> string + payload" where
  "json_Unmarshal data =
     (case json_decode data of
        None \<Rightarrow> Inl ''json: syntax error or number out of range''
      | Some JNull \<Rightarrow> Inr None
      | Some (JObject kvs) \<Rightarrow> Inr (Some (map_of (rev kvs)))
      | Some _ \<Rightarrow> Inl ''json: cannot unmarshal into Go value of type map[string]interface {}'')"

subsection \<open>A library record and a client\<close>

text \<open>
  Request bodies for the runs: a boolean, which \<^verbatim>\<open>json.Marshal\<close> writes as \<^verbatim>\<open>true\<close> or
  \<^verbatim>\<open>false\<close>, and the \<^verbatim>\<open>float64\<close> NaN, which it rejects.
\<close>

datatype sample_body = BoolBody bool | NaNBody

fun sample_Marshal :: "sample_body \<Rightarrow> string + string" where
  "sample_Marshal (BoolBody True) = Inr ''true''"
| "sample_Marshal (BoolBody False) = Inr ''false''"
| "sample_Marshal NaNBody = Inl ''json: unsupported value: NaN''"

text \<open>
  \<^verbatim>\<open>http.NewRequestWithContext\<close> succeeds on the methods GET and POST and an \<^verbatim>\<open>https\<close>
  URL made of letters, digits and the characters \<^verbatim>\<open>/ . _ -\<close>. The runs use no other
  request; the record refuses the rest, some of which Go would accept.
\<close>

definition plain_url_char :: "char \<Rightarrow> bool" where
  "plain_url_char c =
     (let n = (of_char c :: nat)
      in (48 \<le> n \<and> n \<le> 57) \<or> (65 \<le> n \<and> n \<le> 90) \<or> (97 \<le> n \<and> n \<le> 122)
         \<or> c = CHR ''/'' \<or> c = CHR ''.'' \<or> c = CHR ''_'' \<or> c = CHR ''-'')"

definition sample_NewRequestWithContext :: "string \<Rightarrow> string \<Rightarrow> string option" where
  "sample_NewRequestWithContext method url =
     (if method \<noteq> ''GET'' \<and> method \<noteq> ''POST'' then Some ''net/http: invalid method''
      else if take 8 url = ''https://'' \<and> list_all plain_url_char (drop 8 url) then None
      else Some ''parse: invalid URL'')"

text \<open>
  On amd64 the conversion of a \<^verbatim>\<open>float64\<close> outside \<^verbatim>\<open>int64\<close> gives the least \<^verbatim>\<open>int64\<close>.
\<close>

definition go_stdlib :: "sample_body stdlib" where
  "go_stdlib =
     \<lparr> Marshal = sample_Marshal,
       Unmarshal = json_Unmarshal,
       ParseFloat = decimal_ParseFloat,
       NewRequestWithContext = sample_NewRequestWithContext,
       ConvOutOfRange = (\<lambda>f. - (2 ^ 63)) \<rparr>"

text \<open>The client that \<^verbatim>\<open>NewClient("test_key")\<close> returns.\<close>

definition DefaultMaxRetries :: int where
  "DefaultMaxRetries = 3"

definition default_client :: Client where
  "default_client =
     \<lparr> apiKey = ''test_key'',
       baseURL = ''https://api.memu.so'',
       maxRetries = DefaultMaxRetries,
       timeout = 60 * Second,
       retryPolicy = NewDefaultRetryPolicy None \<rparr>"

text \<open>A network on which every request fails.\<close>

definition unreachable :: "int \<Rightarrow> http_result" where
  "unreachable attempt = DoError ''dial tcp: connection refused''"

text \<open>The request of \<^verbatim>\<open>GetTaskStatus(ctx, "t1")\<close> on that client.\<close>

definition status_path :: string where
  "status_path = ''/api/v3/memory/memorize/status/t1''"

definition status_request :: http_request where
  "status_request =
     \<lparr> req_method = ''GET'',
       req_url = ''https://api.memu.so/api/v3/memory/memorize/status/t1'',
       req_header = defaultHeaders default_client,
       req_params = Map.empty,
       req_body = None \<rparr>"

text \<open>Networks that answer every attempt alike, and a 429 response with an HTTP date.\<close>

definition always_503 :: "int \<Rightarrow> http_result" where
  "always_503 attempt = Respond 503 Map.empty []"

definition always_429 :: "int \<Rightarrow> http_result" where
  "always_429 attempt = Respond 429 Map.empty []"

definition http_date_429 :: http_result where
  "http_date_429 = Respond 429 [''Retry-After'' \<mapsto> ''Wed, 21 Oct 2015 07:28:00 GMT''] []"

section \<open>Properties\<close>

subsection \<open>Formatting\<close>

text \<open>\<open>fmt_nat\<close> writes decimal digits only, and they read back as the number.\<close>

lemma digit_val_digit_char: "d < 10 \<Longrightarrow> digit_val (digit_char d) = d"
  by (auto simp add: digit_val_def digit_char_def)

lemma nat_of_digits_snoc: "nat_of_digits (ds @ [c]) = 10 * nat_of_digits ds + digit_val c"
  by (simp add: nat_of_digits_def)

lemma nat_of_digits_fmt_nat: "nat_of_digits (fmt_nat n) = n"
proof (induction n rule: fmt_nat.induct)
  case (1 n)
  show ?case
  proof (cases "n < 10")
    case True
    then show ?thesis
      by (subst fmt_nat.simps) (simp add: nat_of_digits_def digit_val_digit_char)
  next
    case False
    with "1" have "nat_of_digits (fmt_nat (n div 10)) = n div 10"
      by simp
    with False show ?thesis
      by (subst fmt_nat.simps) (simp add: nat_of_digits_snoc digit_val_digit_char)
  qed
qed

lemma fmt_nat_digits: "list_all is_digit (fmt_nat n)"
proof (induction n rule: fmt_nat.induct)
  case (1 n)
  have d: "is_digit (digit_char d)" for d
    by (simp add: is_digit_def digit_char_def)
  show ?case
  proof (cases "n < 10")
    case True
    then show ?thesis by (subst fmt_nat.simps) (simp add: d)
  next
    case False
    with "1" show ?thesis by (subst fmt_nat.simps) (simp add: d)
  qed
qed

subsection \<open>The retry policy\<close>

lemma default_policy_simps:
  "ShouldRetry (NewDefaultRetryPolicy None) = defaultRetryPolicy_ShouldRetry DefaultRetryConfig"
  "GetBackoff (NewDefaultRetryPolicy None) = defaultRetryPolicy_GetBackoff DefaultRetryConfig"
  "ShouldRetry (NewDefaultRetryPolicy (Some cfg)) = defaultRetryPolicy_ShouldRetry cfg"
  "GetBackoff (NewDefaultRetryPolicy (Some cfg)) = defaultRetryPolicy_GetBackoff cfg"
  by (simp_all add: NewDefaultRetryPolicy_def)

lemma default_ShouldRetry_status:
  "defaultRetryPolicy_ShouldRetry DefaultRetryConfig attempt status None
     = (attempt < 3 \<and> status \<in> {429, 500, 502, 503, 504})"
  by (auto simp add: defaultRetryPolicy_ShouldRetry_def DefaultRetryConfig_def map_index_bool_def)

lemma default_GetBackoff_values:
  "defaultRetryPolicy_GetBackoff DefaultRetryConfig 0 = 1 * Second"
  "defaultRetryPolicy_GetBackoff DefaultRetryConfig 1 = 2 * Second"
  "defaultRetryPolicy_GetBackoff DefaultRetryConfig 2 = 4 * Second"
  "defaultRetryPolicy_GetBackoff DefaultRetryConfig 3 = 8 * Second"
  by (simp_all add: defaultRetryPolicy_GetBackoff_def DefaultRetryConfig_def uint_of_int_def
        Second_def word_sless_alt Let_def)

text \<open>
  C4. \<^verbatim>\<open>ShouldRetry\<close> of the default and of the custom policy is false from
  \<^verbatim>\<open>attempt >= maxRetries\<close> on, and that of the no-retry policy is false always. Below
  the ceiling the default policy answers true for a non-nil error whatever the status
  code, and otherwise true exactly for a positive status code that the configuration
  maps to true. The default configuration, which \<^verbatim>\<open>NewDefaultRetryPolicy(nil)\<close> uses,
  maps exactly 429, 500, 502, 503 and 504 to true.
\<close>

theorem ShouldRetry_ceiling_and_decision:
  "(MaxRetries cfg \<le> attempt \<longrightarrow>
      \<not> ShouldRetry (NewDefaultRetryPolicy (Some cfg)) attempt statusCode err)
   \<and> (maxRetries' \<le> attempt \<longrightarrow>
      \<not> ShouldRetry (NewCustomRetryPolicy maxRetries' shouldRetry getBackoff) attempt statusCode err)
   \<and> \<not> ShouldRetry NewNoRetryPolicy attempt statusCode err
   \<and> (attempt < MaxRetries cfg \<longrightarrow>
        ShouldRetry (NewDefaultRetryPolicy (Some cfg)) attempt statusCode err
          = (err \<noteq> None \<or> (0 < statusCode \<and> RetryableStatusCodes cfg statusCode = Some True)))
   \<and> ShouldRetry (NewDefaultRetryPolicy None) = ShouldRetry (NewDefaultRetryPolicy (Some DefaultRetryConfig))
   \<and> {s. RetryableStatusCodes DefaultRetryConfig s = Some True} = {429, 500, 502, 503, 504}"
  by (auto simp add: default_policy_simps defaultRetryPolicy_ShouldRetry_def
        NewCustomRetryPolicy_def customRetryPolicy_ShouldRetry_def NewNoRetryPolicy_def
        noRetryPolicy_ShouldRetry_def map_index_bool_def DefaultRetryConfig_def
        split: option.splits if_splits)

text \<open>The theorem at the ceiling, below it, and on a status code outside the set.\<close>

theorem ShouldRetry_witness:
  "\<not> ShouldRetry (NewDefaultRetryPolicy (Some DefaultRetryConfig)) 3 503 (Some ''timeout'')
   \<and> \<not> ShouldRetry (NewCustomRetryPolicy 2 (\<lambda>a s e. True) (\<lambda>a. Second)) 2 503 None
   \<and> ShouldRetry (NewDefaultRetryPolicy (Some DefaultRetryConfig)) 2 0 (Some ''timeout'')
   \<and> ShouldRetry (NewDefaultRetryPolicy (Some DefaultRetryConfig)) 2 503 None
   \<and> \<not> ShouldRetry (NewDefaultRetryPolicy (Some DefaultRetryConfig)) 2 404 None"
  using ShouldRetry_ceiling_and_decision [of DefaultRetryConfig 3 503 "Some ''timeout''" 2 "\<lambda>a s e. True" "\<lambda>a. Second"]
    ShouldRetry_ceiling_and_decision [of DefaultRetryConfig 2 0 "Some ''timeout''" 2 "\<lambda>a s e. True" "\<lambda>a. Second"]
    ShouldRetry_ceiling_and_decision [of DefaultRetryConfig 2 503 None 2 "\<lambda>a s e. True" "\<lambda>a. Second"]
    ShouldRetry_ceiling_and_decision [of DefaultRetryConfig 2 404 None 2 "\<lambda>a s e. True" "\<lambda>a. Second"]
  by (simp add: DefaultRetryConfig_def)

text \<open>
  While the product \<^verbatim>\<open>BaseDelay * 2^attempt\<close> fits a \<^verbatim>\<open>time.Duration\<close>, the backoff of the
  default policy is the smaller of that product and \<^verbatim>\<open>MaxDelay\<close>.
\<close>

lemma sint_mult_pow2:
  fixes b :: "64 word"
  assumes "0 \<le> sint b" "sint b * 2 ^ n < 2 ^ 63"
  shows "sint (b * 2 ^ n) = sint b * 2 ^ n"
proof -
  have eq: "b * 2 ^ n = word_of_int (sint b * 2 ^ n)"
    by simp
  have "0 \<le> sint b * 2 ^ n"
    using assms(1) by simp
  then have lo: "- (2 ^ 63) \<le> sint b * 2 ^ n"
    by simp
  have "sint (word_of_int (sint b * 2 ^ n) :: 64 word) = signed_take_bit 63 (sint b * 2 ^ n)"
    by (subst sint_sbintrunc') simp
  also have "\<dots> = sint b * 2 ^ n"
    using lo assms(2) by (intro signed_take_bit_int_eq_self) simp_all
  finally show ?thesis
    by (subst eq)
qed

lemma uint_of_int_small: "0 \<le> attempt \<Longrightarrow> attempt < 2 ^ 63 \<Longrightarrow> uint_of_int attempt = nat attempt"
  by (simp add: uint_of_int_def)

lemma defaultRetryPolicy_GetBackoff_in_range:
  assumes "0 \<le> attempt" "attempt < 2 ^ 63"
    and "0 \<le> sint (BaseDelay config)"
    and "sint (BaseDelay config) * 2 ^ nat attempt < 2 ^ 63"
  shows "sint (defaultRetryPolicy_GetBackoff config attempt)
           = min (sint (BaseDelay config) * 2 ^ nat attempt) (sint (MaxDelay config))"
  using assms
  by (simp add: defaultRetryPolicy_GetBackoff_def Let_def uint_of_int_small sint_mult_pow2
        word_sless_alt min_def)

text \<open>
  C2. The specification gives \<^verbatim>\<open>GetBackoff(n)\<close> of the default policy as
  \<open>min (baseDelay * 2 ^ n) maxDelay\<close> for every \<open>n \<ge> 0\<close>. The code computes the product
  in 64 bits before it compares: with the default configuration (1 s, 32 s) the product
  at \<open>n = 34\<close> wraps to a negative duration, which is not above \<^verbatim>\<open>MaxDelay\<close> and is
  returned as it is, where the specified value is 32 s; at \<open>n = 64\<close> the shift gives 0.
  At \<open>n = 10\<close> the backoff is 32 s, as the specification's example says.
\<close>

theorem default_backoff_overflows:
  "sint (GetBackoff (NewDefaultRetryPolicy None) 34) = - 1266874889709551616
   \<and> min (sint (BaseDelay DefaultRetryConfig) * 2 ^ 34) (sint (MaxDelay DefaultRetryConfig))
       = 32000000000
   \<and> GetBackoff (NewDefaultRetryPolicy None) 64 = 0
   \<and> GetBackoff (NewDefaultRetryPolicy None) 10 = 32 * Second"
  by (simp add: default_policy_simps defaultRetryPolicy_GetBackoff_def DefaultRetryConfig_def
        uint_of_int_def Second_def word_sless_alt Let_def)

subsection \<open>One turn of the loop\<close>

text \<open>
  The loop unfolds once per attempt. The lemmas that follow give the turn for each
  branch of the loop body, first for the body alone and then for the loop.
\<close>

lemma request_loop_Return:
  "attempt_body L c method path body params (net attempt) attempt = (evs, Return r)
   \<Longrightarrow> request_loop L c method path body params net attempt past = Some (r, past @ evs)"
  by (subst request_loop.simps) simp

lemma request_loop_Continue:
  "attempt_body L c method path body params (net attempt) attempt = (evs, Continue)
   \<Longrightarrow> request_loop L c method path body params net attempt past
       = request_loop L c method path body params net (attempt + 1) (past @ evs)"
  by (subst request_loop.simps) simp

lemma attempt_body_Respond:
  "prepare L c method path body params = Inr req
   \<Longrightarrow> attempt_body L c method path body params (Respond status hdr respBody) attempt
       = (HTTPDo req # fst (handle_response L c path attempt status hdr respBody),
          snd (handle_response L c path attempt status hdr respBody))"
  by (simp add: attempt_body_def split: prod.splits)

lemma attempt_body_unprepared:
  "prepare L c method path body params = Inl e
   \<Longrightarrow> attempt_body L c method path body params net attempt = ([], Return (Inl e))"
  by (simp add: attempt_body_def)

lemma prepare_Marshal_fails:
  "Marshal L b = Inl err
   \<Longrightarrow> prepare L c method path (Some b) params
       = Inl (GoError (''failed to marshal request body: '' @ err))"
  by (simp add: prepare_def)

lemma handle_response_client_error:
  "400 \<le> status \<Longrightarrow> status < 500 \<Longrightarrow> status \<noteq> 429
   \<Longrightarrow> handle_response L c path attempt status hdr respBody
       = ([], Return (Inl (raiseForStatus status path (parse_response L respBody))))"
  by (simp add: handle_response_def Let_def)

lemma handle_response_success:
  "status < 400
   \<Longrightarrow> handle_response L c path attempt status hdr respBody
       = ([], Return (Inr (parse_response L respBody)))"
  by (simp add: handle_response_def Let_def)

lemma handle_response_server_retry:
  "500 \<le> status \<Longrightarrow> ShouldRetry (retryPolicy c) attempt status None
   \<Longrightarrow> handle_response L c path attempt status hdr respBody
       = ([Sleep (GetBackoff (retryPolicy c) attempt)], Continue)"
  by (simp add: handle_response_def Let_def)

lemma handle_response_server_final:
  "500 \<le> status \<Longrightarrow> \<not> ShouldRetry (retryPolicy c) attempt status None
   \<Longrightarrow> handle_response L c path attempt status hdr respBody
       = ([], Return (Inl (NewClientError
                (if respBody = [] then ''server error: '' @ fmt_d status
                 else ''server error: '' @ fmt_d status @ '', response: '' @ respBody)
                (Some status) (parse_response L respBody))))"
  by (simp add: handle_response_def Let_def)

lemma handle_response_429_retry:
  "ShouldRetry (retryPolicy c) attempt 429 None
   \<Longrightarrow> handle_response L c path attempt 429 hdr respBody
       = ([Sleep (rate_limit_waitTime L (retryPolicy c) hdr attempt)], Continue)"
  by (simp add: handle_response_def Let_def)

lemma handle_response_429_final:
  "\<not> ShouldRetry (retryPolicy c) attempt 429 None
   \<Longrightarrow> handle_response L c path attempt 429 hdr respBody
       = ([], Return (Inl (NewRateLimitError ''rate limit exceeded''
                (Some (seconds_of_Duration (rate_limit_waitTime L (retryPolicy c) hdr attempt)))
                (Some 429) (parse_response L respBody))))"
  by (simp add: handle_response_def Let_def)

lemma step_unprepared:
  assumes "prepare L c method path body params = Inl e"
  shows "request_loop L c method path body params net attempt past = Some (Inl e, past)"
  using request_loop_Return
    [of L c "method" "path" body params net attempt "[]" "Inl e" past]
    attempt_body_unprepared [OF assms]
  by simp

lemma step_return:
  assumes "prepare L c method path body params = Inr req"
    and "net attempt = Respond status hdr respBody"
    and "handle_response L c path attempt status hdr respBody = ([], Return r)"
  shows "request_loop L c method path body params net attempt past
           = Some (r, past @ [HTTPDo req])"
  using request_loop_Return
    [of L c "method" "path" body params net attempt "[HTTPDo req]" r past]
    attempt_body_Respond [OF assms(1)] assms(2,3)
  by simp

lemma step_continue:
  assumes "prepare L c method path body params = Inr req"
    and "net attempt = Respond status hdr respBody"
    and "handle_response L c path attempt status hdr respBody = ([Sleep d], Continue)"
  shows "request_loop L c method path body params net attempt past
           = request_loop L c method path body params net (attempt + 1)
               (past @ [HTTPDo req, Sleep d])"
  using request_loop_Continue
    [of L c "method" "path" body params net attempt "[HTTPDo req, Sleep d]" past]
    attempt_body_Respond [OF assms(1)] assms(2,3)
  by simp

lemma raiseForStatus_carries:
  "\<exists>e. base_error (raiseForStatus statusCode path response) = Some e
        \<and> StatusCode e = Some statusCode \<and> Response e = response"
  by (simp add: raiseForStatus_def Let_def NewAuthenticationError_def NewNotFoundError_def
        NewValidationError_def NewClientError_def)

subsection \<open>The library record on the texts of the runs\<close>

lemma go_stdlib_simps:
  "Unmarshal go_stdlib = json_Unmarshal"
  "ParseFloat go_stdlib = decimal_ParseFloat"
  "Marshal go_stdlib = sample_Marshal"
  by (simp_all add: go_stdlib_def)

lemma retryPolicy_default_client: "retryPolicy default_client = NewDefaultRetryPolicy None"
  by (simp add: default_client_def)

lemma fmt_d_examples:
  "fmt_d 404 = ''404''" "fmt_d 418 = ''418''" "fmt_d 500 = ''500''" "fmt_d 503 = ''503''"
  by (simp_all add: fmt_d_def fmt_nat.simps digit_char_def)

lemma sample_NewRequest_status:
  "sample_NewRequestWithContext ''GET'' ''https://api.memu.so/api/v3/memory/memorize/status/t1'' = None"
  by code_simp

lemma prepare_status_request:
  "prepare go_stdlib default_client ''GET'' status_path None Map.empty = Inr status_request"
  by (simp add: prepare_def go_stdlib_def default_client_def status_path_def status_request_def
        sample_NewRequest_status)

lemma decode_pending:
  \<open>json_decode ''{"task_id":"t1","status":"PENDING"}''
     = Some (JObject [(''task_id'', JString ''t1''), (''status'', JString ''PENDING'')])\<close>
  by code_simp

lemma decode_plain_text: "json_decode ''plain text'' = None"
  by code_simp

lemma decode_invalid_key: 
  \<open>json_decode ''{"message":"Invalid API key provided"}'' = Some (JObject [(''message'', JString ''Invalid API key provided'')])\<close>
  by code_simp

lemma decode_down: \<open>json_decode ''{"error":"down"}'' = Some (JObject [(''error'', JString ''down'')])\<close>
  by code_simp

lemma decode_oops: "json_decode ''oops'' = None"
  by code_simp

lemma decode_not_found:
  \<open>json_decode ''{"message":"Task not found"}'' = Some (JObject [(''message'', JString ''Task not found'')])\<close>
  by code_simp

lemma Unmarshal_pending:
  \<open>json_Unmarshal ''{"task_id":"t1","status":"PENDING"}''
     = Inr (Some [''task_id'' \<mapsto> JString ''t1'', ''status'' \<mapsto> JString ''PENDING''])\<close>
  by (simp add: json_Unmarshal_def decode_pending)

lemma Unmarshal_plain_text:
  "json_Unmarshal ''plain text'' = Inl ''json: syntax error or number out of range''"
  by (simp add: json_Unmarshal_def decode_plain_text)

lemma Unmarshal_not_found:
  \<open>Unmarshal go_stdlib ''{"message":"Task not found"}''
     = Inr (Some [''message'' \<mapsto> JString ''Task not found''])\<close>
  by (simp add: go_stdlib_simps json_Unmarshal_def decode_not_found)

lemma parse_response_pending:
  \<open>parse_response go_stdlib ''{"task_id":"t1","status":"PENDING"}''
     = Some [''task_id'' \<mapsto> JString ''t1'', ''status'' \<mapsto> JString ''PENDING'']\<close>
  by (simp add: parse_response_def go_stdlib_def Unmarshal_pending)

lemma parse_response_invalid_key:
  \<open>parse_response go_stdlib ''{"message":"Invalid API key provided"}'' = Some [''message'' \<mapsto> JString ''Invalid API key provided'']\<close>
  by (simp add: parse_response_def go_stdlib_def json_Unmarshal_def decode_invalid_key)

lemma parse_response_down:
  \<open>parse_response go_stdlib ''{"error":"down"}'' = Some [''error'' \<mapsto> JString ''down'']\<close>
  by (simp add: parse_response_def go_stdlib_def json_Unmarshal_def decode_down)

lemma parse_response_oops:
  "parse_response go_stdlib ''oops'' = Some [''raw'' \<mapsto> JString ''oops'']"
  by (simp add: parse_response_def go_stdlib_def json_Unmarshal_def decode_oops)

lemma ParseFloat_http_date: "decimal_ParseFloat ''Wed, 21 Oct 2015 07:28:00 GMT'' = None"
  by code_simp

lemma ParseFloat_5: "decimal_ParseFloat ''5'' = Some (Finite 5)"
  by code_simp

subsection \<open>Failures that end the call at once\<close>

text \<open>
  C8. When the request body is present and \<^verbatim>\<open>json.Marshal\<close> rejects it, \<open>request\<close>
  returns the serialization failure at the attempt where this happens, whatever the
  retry policy and the network: no request is sent and nothing is slept.
\<close>

theorem marshal_failure_is_immediate:
  assumes "Marshal L b = Inl err"
  shows "request_loop L c method path (Some b) params net attempt past
           = Some (Inl (GoError (''failed to marshal request body: '' @ err)), past)
         \<and> request L c method path (Some b) params net
           = Some (Inl (GoError (''failed to marshal request body: '' @ err)), [])"
  using step_unprepared [OF prepare_Marshal_fails [OF assms]]
  by (simp add: request_def)

text \<open>A body that holds NaN, on a network that would otherwise be retried.\<close>

theorem marshal_failure_witness:
  "Marshal go_stdlib NaNBody = Inl ''json: unsupported value: NaN''
   \<and> request go_stdlib default_client ''POST'' ''/api/v3/memory/memorize'' (Some NaNBody)
         Map.empty unreachable
       = Some (Inl (GoError ''failed to marshal request body: json: unsupported value: NaN''), [])"
  using marshal_failure_is_immediate
    [of go_stdlib NaNBody "''json: unsupported value: NaN''" default_client "''POST''"
        "''/api/v3/memory/memorize''" Map.empty unreachable 0 "[]"]
  by (simp add: go_stdlib_def)

text \<open>
  C6. A response with a status from 400 to 499 other than 429 ends the call at the attempt
  that receives it, whatever the retry policy: one request more is sent, nothing is
  slept, and the result is the classifier's error. For 401 it is an
  \<^verbatim>\<open>AuthenticationError\<close> with status code 401.
\<close>

theorem client_errors_are_never_retried:
  assumes "prepare L c method path body params = Inr req"
    and "net attempt = Respond status hdr respBody"
    and "400 \<le> status" and "status < 500" and "status \<noteq> 429"
  shows "request_loop L c method path body params net attempt past
           = Some (Inl (raiseForStatus status path (parse_response L respBody)),
                   past @ [HTTPDo req])
         \<and> (status = 401 \<longrightarrow>
              raiseForStatus status path (parse_response L respBody)
                = AuthenticationErr
                    \<lparr> Message = message_or ''Authentication failed. Please check your API key.''
                                  (parse_response L respBody),
                      StatusCode = Some 401,
                      Response = parse_response L respBody \<rparr>)"
proof -
  have "attempt_body L c method path body params (net attempt) attempt
          = ([HTTPDo req], Return (Inl (raiseForStatus status path (parse_response L respBody))))"
    using assms by (simp add: attempt_body_Respond handle_response_client_error)
  from request_loop_Return [of L c "method" "path" body params net attempt, OF this]
  show ?thesis
    by (simp add: raiseForStatus_def NewAuthenticationError_def)
qed

text \<open>A 401 response under the default policy, which has three retries left.\<close>

theorem client_errors_witness:
  \<open>prepare go_stdlib default_client ''GET'' status_path None Map.empty = Inr status_request
   \<and> request_loop go_stdlib default_client ''GET'' status_path None Map.empty
      (script [Respond 401 Map.empty ''{"message":"Invalid API key provided"}''] unreachable) 0 []
    = Some (Inl (AuthenticationErr
                  \<lparr> Message = ''Invalid API key provided'',
                    StatusCode = Some 401,
                    Response = Some [''message'' \<mapsto> JString ''Invalid API key provided''] \<rparr>),
            [HTTPDo status_request])\<close>
  using client_errors_are_never_retried
    [of go_stdlib default_client "''GET''" status_path None Map.empty status_request
        \<open>script [Respond 401 Map.empty ''{"message":"Invalid API key provided"}''] unreachable\<close>
        0 401 Map.empty \<open>''{"message":"Invalid API key provided"}''\<close> "[]"]
  by (simp add: script_def parse_response_invalid_key message_or_def prepare_status_request)

subsection \<open>Server errors\<close>

text \<open>
  C3. Under the default policy (\<^verbatim>\<open>MaxRetries = 3\<close>), the responses 500, 500, 200 make
  \<open>request\<close> send three requests, sleep 1 s and 2 s between them and return the decoded
  body of the third response; the responses 500, 500, 500, 500 make it send four
  requests, which is \<^verbatim>\<open>MaxRetries + 1\<close>, and return a \<^verbatim>\<open>ClientError\<close> with status code
  500 whose message is \<^verbatim>\<open>server error: 500\<close>, followed by \<^verbatim>\<open>, response: \<close> and the raw
  body when the body is not empty.
\<close>

theorem server_errors_are_retried_up_to_the_ceiling:
  assumes prep: "prepare L c method path body params = Inr req"
    and pol: "retryPolicy c = NewDefaultRetryPolicy None"
  shows "(let evs = [HTTPDo req, Sleep (1 * Second), HTTPDo req, Sleep (2 * Second), HTTPDo req]
          in request L c method path body params
               (script [Respond 500 h0 b0, Respond 500 h1 b1, Respond 200 h2 b2] rest)
               = Some (Inr (parse_response L b2), evs)
             \<and> attempts_made evs = 3)
       \<and> (let evs = [HTTPDo req, Sleep (1 * Second), HTTPDo req, Sleep (2 * Second),
                      HTTPDo req, Sleep (4 * Second), HTTPDo req]
          in request L c method path body params
               (script [Respond 500 k0 d0, Respond 500 k1 d1, Respond 500 k2 d2,
                        Respond 500 k3 d3] rest')
               = Some (Inl (NewClientError
                              (if d3 = [] then ''server error: 500''
                               else ''server error: 500, response: '' @ d3)
                              (Some 500) (parse_response L d3)), evs)
             \<and> int (attempts_made evs) = MaxRetries DefaultRetryConfig + 1)"
proof -
  have retry: "handle_response L c path a 500 h b
                 = ([Sleep (defaultRetryPolicy_GetBackoff DefaultRetryConfig a)], Continue)"
    if "a < 3" for a h b
    using that
    by (simp add: handle_response_server_retry pol default_policy_simps
          default_ShouldRetry_status)
  have final: "handle_response L c path 3 500 h b
                 = ([], Return (Inl (NewClientError
                      (if b = [] then ''server error: 500''
                       else ''server error: 500, response: '' @ b)
                      (Some 500) (parse_response L b))))" for h b
    by (simp add: handle_response_server_final pol default_policy_simps
          default_ShouldRetry_status fmt_d_examples)
  let ?run = "request_loop L c method path body params"
  let ?ok = "script [Respond 500 h0 b0, Respond 500 h1 b1, Respond 200 h2 b2] rest"
  let ?ko = "script [Respond 500 k0 d0, Respond 500 k1 d1, Respond 500 k2 d2,
                     Respond 500 k3 d3] rest'"
  have "?run ?ok 0 [] = ?run ?ok 1 [HTTPDo req, Sleep (1 * Second)]"
    using step_continue [where net = ?ok and attempt = 0 and past = "[]", OF prep _ retry]
    by (simp add: script_def default_GetBackoff_values)
  also have "\<dots> = ?run ?ok 2 [HTTPDo req, Sleep (1 * Second), HTTPDo req, Sleep (2 * Second)]"
    using step_continue [where net = ?ok and attempt = 1, OF prep _ retry]
    by (simp add: script_def default_GetBackoff_values)
  also have "\<dots> = Some (Inr (parse_response L b2),
      [HTTPDo req, Sleep (1 * Second), HTTPDo req, Sleep (2 * Second), HTTPDo req])"
    using step_return [where net = ?ok and attempt = 2, OF prep _ handle_response_success]
    by (simp add: script_def)
  finally have ok: "?run ?ok 0 [] = Some (Inr (parse_response L b2),
      [HTTPDo req, Sleep (1 * Second), HTTPDo req, Sleep (2 * Second), HTTPDo req])" .
  have "?run ?ko 0 [] = ?run ?ko 1 [HTTPDo req, Sleep (1 * Second)]"
    using step_continue [where net = ?ko and attempt = 0 and past = "[]", OF prep _ retry]
    by (simp add: script_def default_GetBackoff_values)
  also have "\<dots> = ?run ?ko 2 [HTTPDo req, Sleep (1 * Second), HTTPDo req, Sleep (2 * Second)]"
    using step_continue [where net = ?ko and attempt = 1, OF prep _ retry]
    by (simp add: script_def default_GetBackoff_values)
  also have "\<dots> = ?run ?ko 3 [HTTPDo req, Sleep (1 * Second), HTTPDo req, Sleep (2 * Second),
                                HTTPDo req, Sleep (4 * Second)]"
    using step_continue [where net = ?ko and attempt = 2, OF prep _ retry]
    by (simp add: script_def default_GetBackoff_values)
  also have "\<dots> = Some (Inl (NewClientError
                              (if d3 = [] then ''server error: 500''
                               else ''server error: 500, response: '' @ d3)
                              (Some 500) (parse_response L d3)),
      [HTTPDo req, Sleep (1 * Second), HTTPDo req, Sleep (2 * Second),
       HTTPDo req, Sleep (4 * Second), HTTPDo req])"
    using step_return [where net = ?ko and attempt = 3, OF prep _ final]
    by (simp add: script_def)
  finally have ko: "?run ?ko 0 [] = Some (Inl (NewClientError
                              (if d3 = [] then ''server error: 500''
                               else ''server error: 500, response: '' @ d3)
                              (Some 500) (parse_response L d3)),
      [HTTPDo req, Sleep (1 * Second), HTTPDo req, Sleep (2 * Second),
       HTTPDo req, Sleep (4 * Second), HTTPDo req])" .
  show ?thesis
    using ok ko
    by (simp add: request_def Let_def attempts_made_def DefaultRetryConfig_def)
qed

text \<open>The two runs on the default client.\<close>

theorem server_errors_witness:
  \<open>prepare go_stdlib default_client ''GET'' status_path None Map.empty = Inr status_request
   \<and> retryPolicy default_client = NewDefaultRetryPolicy None
   \<and> request go_stdlib default_client ''GET'' status_path None Map.empty
         (script [Respond 500 Map.empty [], Respond 500 Map.empty [],
                  Respond 200 Map.empty ''{"task_id":"t1","status":"PENDING"}''] unreachable)
       = Some (Inr (Some [''task_id'' \<mapsto> JString ''t1'', ''status'' \<mapsto> JString ''PENDING'']),
               [HTTPDo status_request, Sleep (1 * Second), HTTPDo status_request,
                Sleep (2 * Second), HTTPDo status_request])
   \<and> request go_stdlib default_client ''GET'' status_path None Map.empty
         (script [Respond 500 Map.empty [], Respond 500 Map.empty [], Respond 500 Map.empty [],
                  Respond 500 Map.empty ''{"error":"down"}''] unreachable)
       = Some (Inl (ClientErr
                 \<lparr> Message = ''server error: 500, response: {"error":"down"}'',
                   StatusCode = Some 500,
                   Response = Some [''error'' \<mapsto> JString ''down''] \<rparr>),
               [HTTPDo status_request, Sleep (1 * Second), HTTPDo status_request,
                Sleep (2 * Second), HTTPDo status_request, Sleep (4 * Second),
                HTTPDo status_request])\<close>
  using server_errors_are_retried_up_to_the_ceiling
    [of go_stdlib default_client "''GET''" status_path None Map.empty status_request
        Map.empty "[]" Map.empty "[]" Map.empty \<open>''{"task_id":"t1","status":"PENDING"}''\<close>
        unreachable Map.empty "[]" Map.empty "[]" Map.empty "[]" Map.empty
        \<open>''{"error":"down"}''\<close> unreachable,
     OF prepare_status_request]
  by (simp add: default_client_def Let_def parse_response_pending parse_response_down
        NewClientError_def prepare_status_request [unfolded default_client_def])

subsection \<open>The wait of a rate-limited response\<close>

text \<open>
  The three cases of the wait: no header, a header that parses to a number whose
  nanoseconds fit a \<^verbatim>\<open>time.Duration\<close>, and a header that does not parse. A 429 response
  is retried after that wait, or ends the call with an error that carries it.
\<close>

lemma rate_limit_waitTime_absent:
  "hdr ''Retry-After'' = None \<Longrightarrow> rate_limit_waitTime L policy hdr attempt = GetBackoff policy attempt"
  by (simp add: rate_limit_waitTime_def Header_Get_def)

lemma rate_limit_waitTime_number:
  assumes "hdr ''Retry-After'' = Some v" "v \<noteq> []" "ParseFloat L v = Some (Finite r)"
    and "- (2 ^ 63) \<le> trunc_rat (r * 1000000000)" "trunc_rat (r * 1000000000) < 2 ^ 63"
  shows "rate_limit_waitTime L policy hdr attempt = word_of_int (trunc_rat (r * 1000000000))"
  using assms by (simp add: rate_limit_waitTime_def Header_Get_def Duration_of_float_def Let_def)

lemma rate_limit_waitTime_unparseable:
  assumes "hdr ''Retry-After'' = Some v" "v \<noteq> []" "ParseFloat L v = None"
  shows "rate_limit_waitTime L policy hdr attempt = 0"
  using assms by (simp add: rate_limit_waitTime_def Header_Get_def)

lemma rate_limit_waitTime_5:
  "rate_limit_waitTime go_stdlib policy [''Retry-After'' \<mapsto> ''5''] attempt = 5 * Second"
  using rate_limit_waitTime_number
    [of "[''Retry-After'' \<mapsto> ''5'']" "''5''" go_stdlib 5 policy attempt]
  by (simp add: go_stdlib_simps ParseFloat_5 trunc_rat_def Second_def)

lemma rate_limited_retry:
  assumes "prepare L c method path body params = Inr req"
    and "net attempt = Respond 429 hdr respBody"
    and "ShouldRetry (retryPolicy c) attempt 429 None"
  shows "request_loop L c method path body params net attempt past
           = request_loop L c method path body params net (attempt + 1)
               (past @ [HTTPDo req, Sleep (rate_limit_waitTime L (retryPolicy c) hdr attempt)])"
  using step_continue [where net = net and attempt = attempt,
      OF assms(1,2) handle_response_429_retry [OF assms(3)]]
  by simp

lemma rate_limited_final:
  assumes "prepare L c method path body params = Inr req"
    and "net attempt = Respond 429 hdr respBody"
    and "\<not> ShouldRetry (retryPolicy c) attempt 429 None"
  shows "request_loop L c method path body params net attempt past
           = Some (Inl (RateLimitErr
                          \<lparr> Message = ''rate limit exceeded'', StatusCode = Some 429,
                            Response = parse_response L respBody \<rparr>
                          (Some (seconds_of_Duration
                                   (rate_limit_waitTime L (retryPolicy c) hdr attempt)))),
                   past @ [HTTPDo req])"
  using step_return [where net = net and attempt = attempt,
      OF assms(1,2) handle_response_429_final [OF assms(3)]]
  by (simp add: NewRateLimitError_def)

text \<open>
  C1. The specification makes the wait of a 429 response the \<^verbatim>\<open>Retry-After\<close> value when the
  header is present and parseable as a number, and the policy's backoff otherwise. The
  code takes the backoff only when the header is absent or empty: a header that
  \<^verbatim>\<open>ParseFloat\<close> rejects, here an HTTP date, leaves the wait at 0. Under the default
  policy four such responses are retried without any pause, and the
  \<^verbatim>\<open>RateLimitError\<close> of the fourth carries 0 seconds, where the backoff of attempt 3
  is 8 s. An absent header gives that backoff, and the header \<^verbatim>\<open>5\<close> gives 5 s.
\<close>

theorem unparseable_retry_after_waits_zero:
  "ParseFloat go_stdlib ''Wed, 21 Oct 2015 07:28:00 GMT'' = None
   \<and> request go_stdlib default_client ''GET'' status_path None Map.empty
         (script [http_date_429, http_date_429, http_date_429, http_date_429] unreachable)
       = Some (Inl (RateLimitErr
                      \<lparr> Message = ''rate limit exceeded'', StatusCode = Some 429,
                        Response = None \<rparr>
                      (Some (Finite 0))),
               [HTTPDo status_request, Sleep 0, HTTPDo status_request, Sleep 0,
                HTTPDo status_request, Sleep 0, HTTPDo status_request])
   \<and> GetBackoff (retryPolicy default_client) 3 = 8 * Second
   \<and> rate_limit_waitTime go_stdlib (retryPolicy default_client) Map.empty 3 = 8 * Second
   \<and> rate_limit_waitTime go_stdlib (retryPolicy default_client) [''Retry-After'' \<mapsto> ''5''] 3
       = 5 * Second"
proof -
  let ?hdr = "[''Retry-After'' \<mapsto> ''Wed, 21 Oct 2015 07:28:00 GMT'']"
  let ?net = "script [http_date_429, http_date_429, http_date_429, http_date_429] unreachable"
  let ?run = "request_loop go_stdlib default_client ''GET'' status_path None Map.empty ?net"
  have unparsed: "ParseFloat go_stdlib ''Wed, 21 Oct 2015 07:28:00 GMT'' = None"
    by (simp add: go_stdlib_simps ParseFloat_http_date)
  have wait: "rate_limit_waitTime go_stdlib (retryPolicy default_client) ?hdr a = 0" for a
    by (rule rate_limit_waitTime_unparseable [OF _ _ unparsed]) simp_all
  have retry: "handle_response go_stdlib default_client status_path a 429 ?hdr []
                 = ([Sleep 0], Continue)" if "a < 3" for a
    using that handle_response_429_retry [of default_client a go_stdlib status_path ?hdr "[]"]
    by (simp add: retryPolicy_default_client default_policy_simps default_ShouldRetry_status
          wait [unfolded retryPolicy_default_client])
  have final: "handle_response go_stdlib default_client status_path 3 429 ?hdr []
                 = ([], Return (Inl (RateLimitErr
                      \<lparr> Message = ''rate limit exceeded'', StatusCode = Some 429,
                        Response = None \<rparr>
                      (Some (Finite 0)))))"
    using handle_response_429_final [of default_client 3 go_stdlib status_path ?hdr "[]"]
    by (simp add: retryPolicy_default_client default_policy_simps default_ShouldRetry_status
          wait [unfolded retryPolicy_default_client] NewRateLimitError_def
          seconds_of_Duration_def parse_response_def)
  have "?run 0 [] = ?run 1 [HTTPDo status_request, Sleep 0]"
    using step_continue [where net = ?net and attempt = 0 and past = "[]",
        OF prepare_status_request _ retry]
    by (simp add: script_def http_date_429_def)
  also have "\<dots> = ?run 2 [HTTPDo status_request, Sleep 0, HTTPDo status_request, Sleep 0]"
    using step_continue [where net = ?net and attempt = 1,
        OF prepare_status_request _ retry]
    by (simp add: script_def http_date_429_def)
  also have "\<dots> = ?run 3 [HTTPDo status_request, Sleep 0, HTTPDo status_request, Sleep 0,
                            HTTPDo status_request, Sleep 0]"
    using step_continue [where net = ?net and attempt = 2,
        OF prepare_status_request _ retry]
    by (simp add: script_def http_date_429_def)
  also have "\<dots> = Some (Inl (RateLimitErr
                      \<lparr> Message = ''rate limit exceeded'', StatusCode = Some 429,
                        Response = None \<rparr>
                      (Some (Finite 0))),
               [HTTPDo status_request, Sleep 0, HTTPDo status_request, Sleep 0,
                HTTPDo status_request, Sleep 0, HTTPDo status_request])"
    using step_return [where net = ?net and attempt = 3,
        OF prepare_status_request _ final]
    by (simp add: script_def http_date_429_def)
  finally have run: "?run 0 [] = Some (Inl (RateLimitErr
                      \<lparr> Message = ''rate limit exceeded'', StatusCode = Some 429,
                        Response = None \<rparr>
                      (Some (Finite 0))),
               [HTTPDo status_request, Sleep 0, HTTPDo status_request, Sleep 0,
                HTTPDo status_request, Sleep 0, HTTPDo status_request])" .
  show ?thesis
    using unparsed run
    by (simp add: request_def retryPolicy_default_client default_policy_simps
          default_GetBackoff_values rate_limit_waitTime_absent rate_limit_waitTime_5)
qed

subsection \<open>Decoding of response bodies\<close>

text \<open>
  C10. A response with an empty body is not decoded, whatever \<^verbatim>\<open>json.Unmarshal\<close> would
  make of the empty text: a status below 400 returns the nil map, and the errors of a
  terminal 4xx, of a 429 and of a 5xx that the policy does not retry carry a nil
  response. The map with the single key \<^verbatim>\<open>raw\<close> comes from the fallback only for a
  body that is not empty and that \<^verbatim>\<open>json.Unmarshal\<close> rejects.
\<close>

theorem empty_body_is_not_decoded:
  assumes prep: "prepare L c method path body params = Inr req"
    and net: "net attempt = Respond status hdr []"
  shows "parse_response L [] = None
   \<and> (status < 400 \<longrightarrow>
        request_loop L c method path body params net attempt past
          = Some (Inr None, past @ [HTTPDo req]))
   \<and> (400 \<le> status \<and> status < 500 \<and> status \<noteq> 429 \<longrightarrow>
        request_loop L c method path body params net attempt past
          = Some (Inl (raiseForStatus status path None), past @ [HTTPDo req])
        \<and> (\<exists>e. base_error (raiseForStatus status path None) = Some e \<and> Response e = None))
   \<and> (status = 429 \<and> \<not> ShouldRetry (retryPolicy c) attempt status None \<longrightarrow>
        request_loop L c method path body params net attempt past
          = Some (Inl (RateLimitErr
                         \<lparr> Message = ''rate limit exceeded'', StatusCode = Some 429,
                           Response = None \<rparr>
                         (Some (seconds_of_Duration
                                  (rate_limit_waitTime L (retryPolicy c) hdr attempt)))),
                  past @ [HTTPDo req]))
   \<and> (500 \<le> status \<and> \<not> ShouldRetry (retryPolicy c) attempt status None \<longrightarrow>
        request_loop L c method path body params net attempt past
          = Some (Inl (ClientErr
                         \<lparr> Message = ''server error: '' @ fmt_d status,
                           StatusCode = Some status, Response = None \<rparr>),
                  past @ [HTTPDo req]))
   \<and> (\<forall>respBody. parse_response L respBody = Some [''raw'' \<mapsto> JString respBody]
         \<longrightarrow> respBody \<noteq> []
             \<and> (isl (Unmarshal L respBody)
                  \<or> Unmarshal L respBody = Inr (Some [''raw'' \<mapsto> JString respBody])))"
proof -
  have empty: "parse_response L [] = None"
    by (simp add: parse_response_def)
  have ok: "status < 400 \<Longrightarrow>
        request_loop L c method path body params net attempt past
          = Some (Inr None, past @ [HTTPDo req])"
    using step_return [where net = net and attempt = attempt, OF prep net handle_response_success] by (simp add: empty)
  have client: "400 \<le> status \<Longrightarrow> status < 500 \<Longrightarrow> status \<noteq> 429 \<Longrightarrow>
        request_loop L c method path body params net attempt past
          = Some (Inl (raiseForStatus status path None), past @ [HTTPDo req])"
    using step_return [where net = net and attempt = attempt, OF prep net handle_response_client_error] by (simp add: empty)
  have carried: "\<exists>e. base_error (raiseForStatus status path None) = Some e \<and> Response e = None"
    using raiseForStatus_carries [of status "path" None] by blast
  have limited: "request_loop L c method path body params net attempt past
          = Some (Inl (RateLimitErr
                         \<lparr> Message = ''rate limit exceeded'', StatusCode = Some 429,
                           Response = None \<rparr>
                         (Some (seconds_of_Duration
                                  (rate_limit_waitTime L (retryPolicy c) hdr attempt)))),
                  past @ [HTTPDo req])"
    if "status = 429" and "\<not> ShouldRetry (retryPolicy c) attempt status None"
  proof -
    from net that(1) have net': "net attempt = Respond 429 hdr []"
      by simp
    show ?thesis
      using step_return [where net = net and attempt = attempt,
          OF prep net' handle_response_429_final] that
      by (simp add: empty NewRateLimitError_def)
  qed
  have server: "500 \<le> status \<Longrightarrow> \<not> ShouldRetry (retryPolicy c) attempt status None \<Longrightarrow>
        request_loop L c method path body params net attempt past
          = Some (Inl (ClientErr
                         \<lparr> Message = ''server error: '' @ fmt_d status,
                           StatusCode = Some status, Response = None \<rparr>),
                  past @ [HTTPDo req])"
    using step_return [where net = net and attempt = attempt, OF prep net handle_response_server_final]
    by (simp add: empty NewClientError_def)
  have fallback: "respBody \<noteq> []
             \<and> (isl (Unmarshal L respBody)
                  \<or> Unmarshal L respBody = Inr (Some [''raw'' \<mapsto> JString respBody]))"
    if "parse_response L respBody = Some [''raw'' \<mapsto> JString respBody]" for respBody
    using that by (auto simp add: parse_response_def split: if_splits sum.splits)
  show ?thesis
    using empty ok client carried limited server fallback by blast
qed

text \<open>Empty bodies with the statuses 204, 404, 503 and 429, the last two at the ceiling.\<close>

theorem empty_body_witness:
  "prepare go_stdlib default_client ''GET'' status_path None Map.empty = Inr status_request
   \<and> request_loop go_stdlib default_client ''GET'' status_path None Map.empty
         (script [Respond 204 Map.empty []] unreachable) 0 []
       = Some (Inr None, [HTTPDo status_request])
   \<and> request_loop go_stdlib default_client ''GET'' status_path None Map.empty
         (script [Respond 404 Map.empty []] unreachable) 0 []
       = Some (Inl (NotFoundErr
                 \<lparr> Message = ''Resource not found: /api/v3/memory/memorize/status/t1'',
                   StatusCode = Some 404, Response = None \<rparr>), [HTTPDo status_request])
   \<and> request_loop go_stdlib default_client ''GET'' status_path None Map.empty always_503 3 []
       = Some (Inl (ClientErr
                 \<lparr> Message = ''server error: 503'', StatusCode = Some 503, Response = None \<rparr>),
               [HTTPDo status_request])
   \<and> request_loop go_stdlib default_client ''GET'' status_path None Map.empty always_429 3 []
       = Some (Inl (RateLimitErr
                 \<lparr> Message = ''rate limit exceeded'', StatusCode = Some 429, Response = None \<rparr>
                 (Some (Finite 8))),
               [HTTPDo status_request])"
  using
    empty_body_is_not_decoded
      [of go_stdlib default_client "''GET''" status_path None Map.empty status_request
          "script [Respond 204 Map.empty []] unreachable" 0 204 Map.empty "[]",
       OF prepare_status_request]
    empty_body_is_not_decoded
      [of go_stdlib default_client "''GET''" status_path None Map.empty status_request
          "script [Respond 404 Map.empty []] unreachable" 0 404 Map.empty "[]",
       OF prepare_status_request]
    empty_body_is_not_decoded
      [of go_stdlib default_client "''GET''" status_path None Map.empty status_request
          always_503 3 503 Map.empty "[]", OF prepare_status_request]
    empty_body_is_not_decoded
      [of go_stdlib default_client "''GET''" status_path None Map.empty status_request
          always_429 3 429 Map.empty "[]", OF prepare_status_request]
  by (simp add: script_def always_503_def always_429_def
        prepare_status_request [unfolded status_path_def]
        raiseForStatus_def NewNotFoundError_def message_or_def status_path_def
        retryPolicy_default_client default_policy_simps default_ShouldRetry_status fmt_d_examples
        rate_limit_waitTime_def Header_Get_def default_GetBackoff_values
        seconds_of_Duration_def Second_def Let_def)

text \<open>
  C7. With \<^verbatim>\<open>encoding/json\<close> as modelled above, a response with a status below 400 and
  the body \<^verbatim>\<open>{"task_id":"t1","status":"PENDING"}\<close> returns the map with exactly the keys
  \<^verbatim>\<open>task_id\<close> and \<^verbatim>\<open>status\<close> and their values; the body \<^verbatim>\<open>plain text\<close> returns the map
  with the single key \<^verbatim>\<open>raw\<close> and the text; and no body makes the call fail.
\<close>

theorem response_body_decodes_or_falls_back:
  assumes prep: "prepare L c method path body params = Inr req"
    and lib: "Unmarshal L = json_Unmarshal"
    and ok: "status < 400"
  shows \<open>request L c method path body params
            (script [Respond status hdr ''{"task_id":"t1","status":"PENDING"}''] rest)
          = Some (Inr (Some [''task_id'' \<mapsto> JString ''t1'', ''status'' \<mapsto> JString ''PENDING'']),
                  [HTTPDo req])
        \<and> dom [''task_id'' \<mapsto> JString ''t1'', ''status'' \<mapsto> JString ''PENDING'']
            = {''task_id'', ''status''}
        \<and> request L c method path body params (script [Respond status hdr ''plain text''] rest)
          = Some (Inr (Some [''raw'' \<mapsto> JString ''plain text'']), [HTTPDo req])
        \<and> (\<forall>respBody. \<exists>decoded.
              request L c method path body params (script [Respond status hdr respBody] rest)
                = Some (Inr decoded, [HTTPDo req]))\<close>
proof -
  have run: "request L c method path body params (script [Respond status hdr respBody] rest)
               = Some (Inr (parse_response L respBody), [HTTPDo req])" for respBody
    using step_return
      [where net = "script [Respond status hdr respBody] rest" and attempt = 0 and past = "[]",
        OF prep _ handle_response_success [OF ok]]
    by (simp add: request_def script_def)
  have pending: \<open>parse_response L ''{"task_id":"t1","status":"PENDING"}''
                  = Some [''task_id'' \<mapsto> JString ''t1'', ''status'' \<mapsto> JString ''PENDING'']\<close>
    by (simp add: parse_response_def lib Unmarshal_pending)
  have plain: "parse_response L ''plain text'' = Some [''raw'' \<mapsto> JString ''plain text'']"
    by (simp add: parse_response_def lib Unmarshal_plain_text)
  show ?thesis
    using run pending plain by auto
qed

text \<open>The two bodies in a 200 response to the default client.\<close>

theorem response_body_witness:
  \<open>prepare go_stdlib default_client ''GET'' status_path None Map.empty = Inr status_request
   \<and> Unmarshal go_stdlib = json_Unmarshal
   \<and> request go_stdlib default_client ''GET'' status_path None Map.empty
         (script [Respond 200 Map.empty ''{"task_id":"t1","status":"PENDING"}''] unreachable)
       = Some (Inr (Some [''task_id'' \<mapsto> JString ''t1'', ''status'' \<mapsto> JString ''PENDING'']),
               [HTTPDo status_request])
   \<and> request go_stdlib default_client ''GET'' status_path None Map.empty
         (script [Respond 200 Map.empty ''plain text''] unreachable)
       = Some (Inr (Some [''raw'' \<mapsto> JString ''plain text'']), [HTTPDo status_request])\<close>
  using response_body_decodes_or_falls_back
    [of go_stdlib default_client "''GET''" status_path None Map.empty status_request 200
        Map.empty unreachable, OF prepare_status_request]
  by (simp add: go_stdlib_simps prepare_status_request)

subsection \<open>The classifier\<close>

text \<open>
  What \<open>json_Unmarshal\<close> leaves in the map, by the value the text decodes to. It leaves
  the map nil exactly for the word \<^verbatim>\<open>null\<close> between white space.
\<close>

lemma json_decode_empty: "json_decode [] = None"
  by (simp add: json_decode_def skip_space_def)

lemma json_Unmarshal_nil_iff: "(json_Unmarshal d = Inr None) = (json_decode d = Some JNull)"
  by (simp add: json_Unmarshal_def split: option.splits json.splits)

lemma json_Unmarshal_cases:
  "json_Unmarshal d
     = (case json_decode d of
          Some JNull \<Rightarrow> Inr None
        | Some (JObject members) \<Rightarrow> Inr (Some (map_of (rev members)))
        | Some _ \<Rightarrow> Inl ''json: cannot unmarshal into Go value of type map[string]interface {}''
        | None \<Rightarrow> Inl ''json: syntax error or number out of range'')"
  by (simp add: json_Unmarshal_def split: option.splits json.splits)

lemma literal_null: "literal ''null'' JNull xs = Some (v, r) \<longleftrightarrow> v = JNull \<and> xs = ''null'' @ r"
proof
  assume "literal ''null'' JNull xs = Some (v, r)"
  then have t: "take (length ''null'') xs = ''null''"
    and r: "drop (length ''null'') xs = r" and v: "v = JNull"
    by (simp_all add: literal_def split: if_splits)
  have "take (length ''null'') xs @ drop (length ''null'') xs = xs"
    by (rule append_take_drop_id)
  then have "''null'' @ r = xs"
    by (simp only: t r)
  with v show "v = JNull \<and> xs = ''null'' @ r"
    by simp
next
  assume "v = JNull \<and> xs = ''null'' @ r"
  then show "literal ''null'' JNull xs = Some (v, r)"
    by (simp add: literal_def)
qed

lemma parse_value_JNull:
  "parse_value (Suc n) depth s = Some (JNull, r) \<longleftrightarrow> skip_space s = ''null'' @ r"
proof (cases "skip_space s")
  case Nil
  then show ?thesis by simp
next
  case (Cons c cs)
  have other: "literal ''true'' (JBool True) xs \<noteq> Some (JNull, r)"
    "literal ''false'' (JBool False) xs \<noteq> Some (JNull, r)" for xs
    by (simp_all add: literal_def)
  show ?thesis
    using Cons other literal_null [of "c # cs" JNull r]
    by (auto simp add: split: list.splits option.splits if_splits)
qed

lemma json_decode_JNull:
  "json_decode d = Some JNull \<longleftrightarrow> (\<exists>r. skip_space d = ''null'' @ r \<and> skip_space r = [])"
proof -
  define n where "n = 2 * length d + 1"
  have fuel: "2 * length d + 2 = Suc n"
    by (simp add: n_def)
  have "json_decode d = Some JNull
          \<longleftrightarrow> (\<exists>r. parse_value (Suc n) 0 d = Some (JNull, r) \<and> skip_space r = [])"
    unfolding json_decode_def fuel
    by (cases "parse_value (Suc n) 0 d") (auto simp del: parse_value.simps split: if_splits)
  then show ?thesis
    by (simp only: parse_value_JNull)
qed

lemma decode_null: "json_decode ''null'' = Some JNull"
  by code_simp

lemma decode_array: "json_decode ''[1]'' = Some (JArray [JNumber (Finite 1)])"
  by code_simp

text \<open>
  C5, as the specification states it, has every error carry the decoded body, or nil if decoding
  failed. A 404 response whose body \<^verbatim>\<open>oops\<close> fails to decode yields an error that
  carries the map \<^verbatim>\<open>{"raw": "oops"}\<close>, not nil.
\<close>

theorem undecodable_body_is_carried_as_raw:
  "isl (Unmarshal go_stdlib ''oops'')
   \<and> request go_stdlib default_client ''GET'' status_path None Map.empty
         (script [Respond 404 Map.empty ''oops''] unreachable)
       = Some (Inl (NotFoundErr
                      \<lparr> Message = ''Resource not found: /api/v3/memory/memorize/status/t1'',
                        StatusCode = Some 404,
                        Response = Some [''raw'' \<mapsto> JString ''oops''] \<rparr>),
               [HTTPDo status_request])
   \<and> Some [''raw'' \<mapsto> JString ''oops''] \<noteq> (None :: payload)"
proof -
  have "request_loop go_stdlib default_client ''GET'' status_path None Map.empty
          (script [Respond 404 Map.empty ''oops''] unreachable) 0 []
        = Some (Inl (raiseForStatus 404 status_path (parse_response go_stdlib ''oops'')),
                [] @ [HTTPDo status_request])"
    by (rule step_return
          [where net = "script [Respond 404 Map.empty ''oops''] unreachable" and attempt = 0,
            OF prepare_status_request _ handle_response_client_error])
       (simp_all add: script_def)
  moreover have "isl (Unmarshal go_stdlib ''oops'')"
    by (simp add: go_stdlib_def json_Unmarshal_def decode_oops)
  ultimately show ?thesis
    by (simp add: request_def parse_response_oops raiseForStatus_def NewNotFoundError_def
          message_or_def status_path_def)
qed

text \<open>
  C5, amended. The classifier maps 401, 404 and 422 to \<^verbatim>\<open>AuthenticationError\<close>,
  \<^verbatim>\<open>NotFoundError\<close> and \<^verbatim>\<open>ValidationError\<close>, with their default messages unless the
  response has a non-empty string under \<^verbatim>\<open>message\<close>, which is then the message; any
  other status gives a \<^verbatim>\<open>ClientError\<close> whose message is \<^verbatim>\<open>HTTP {status}: {path}\<close>
  whatever the response holds. Every error carries the status code and the response as
  the executor passes it. With \<^verbatim>\<open>encoding/json\<close> as modelled above that response is nil
  exactly when the body is empty or is the word \<^verbatim>\<open>null\<close> between white space, the
  decoded map when the body is a JSON object, and the map with the single key \<^verbatim>\<open>raw\<close>
  for every other body, which is every body that fails to decode.
\<close>

theorem classifier_maps_status_and_carries_body:
  "((\<forall>m msg. response = Some m \<and> m ''message'' = Some (JString msg) \<longrightarrow> msg = []) \<longrightarrow>
      raiseForStatus 401 path response
        = AuthenticationErr
            \<lparr> Message = ''Authentication failed. Please check your API key.'',
              StatusCode = Some 401, Response = response \<rparr>
      \<and> raiseForStatus 404 path response
        = NotFoundErr
            \<lparr> Message = ''Resource not found: '' @ path,
              StatusCode = Some 404, Response = response \<rparr>
      \<and> raiseForStatus 422 path response
        = ValidationErr
            \<lparr> Message = ''Request validation failed. Please check your request parameters.'',
              StatusCode = Some 422, Response = response \<rparr>)
   \<and> (response = Some m \<and> m ''message'' = Some (JString msg) \<and> msg \<noteq> [] \<longrightarrow>
      raiseForStatus 401 path response
        = AuthenticationErr \<lparr> Message = msg, StatusCode = Some 401, Response = response \<rparr>
      \<and> raiseForStatus 404 path response
        = NotFoundErr \<lparr> Message = msg, StatusCode = Some 404, Response = response \<rparr>
      \<and> raiseForStatus 422 path response
        = ValidationErr \<lparr> Message = msg, StatusCode = Some 422, Response = response \<rparr>)
   \<and> (statusCode \<noteq> 401 \<and> statusCode \<noteq> 404 \<and> statusCode \<noteq> 422 \<longrightarrow>
      raiseForStatus statusCode path response
        = ClientErr
            \<lparr> Message = ''HTTP '' @ fmt_d statusCode @ '': '' @ path,
              StatusCode = Some statusCode, Response = response \<rparr>)
   \<and> (prepare L c method path body params = Inr req
        \<and> net attempt = Respond statusCode hdr respBody
        \<and> 400 \<le> statusCode \<and> statusCode < 500 \<and> statusCode \<noteq> 429 \<longrightarrow>
      request_loop L c method path body params net attempt past
        = Some (Inl (raiseForStatus statusCode path
                       (if respBody = [] then None
                        else case Unmarshal L respBody of
                               Inl err \<Rightarrow> Some [''raw'' \<mapsto> JString respBody]
                             | Inr decoded \<Rightarrow> decoded)),
                past @ [HTTPDo req]))
   \<and> (Unmarshal L = json_Unmarshal
        \<and> prepare L c method path body params = Inr req
        \<and> net attempt = Respond statusCode hdr respBody
        \<and> 400 \<le> statusCode \<and> statusCode < 500 \<and> statusCode \<noteq> 429 \<longrightarrow>
      (\<exists>carried.
          request_loop L c method path body params net attempt past
            = Some (Inl (raiseForStatus statusCode path carried), past @ [HTTPDo req])
          \<and> carried
              = (if respBody = [] then None
                 else case json_decode respBody of
                        Some JNull \<Rightarrow> None
                      | Some (JObject members) \<Rightarrow> Some (map_of (rev members))
                      | _ \<Rightarrow> Some [''raw'' \<mapsto> JString respBody])
          \<and> (carried = None) = (respBody = [] \<or> json_decode respBody = Some JNull)
          \<and> (json_decode respBody = Some JNull)
              = (\<exists>r. skip_space respBody = ''null'' @ r \<and> skip_space r = [])))"
proof -
  have plain: "message_or dflt response = dflt"
    if "\<forall>m msg. response = Some m \<and> m ''message'' = Some (JString msg) \<longrightarrow> msg = []" for dflt
    using that by (auto simp add: message_or_def split: option.splits json.splits)
  have override: "message_or dflt response = msg"
    if "response = Some m" "m ''message'' = Some (JString msg)" "msg \<noteq> []" for dflt
    using that by (simp add: message_or_def)
  have executor: "request_loop L c method path body params net attempt past
        = Some (Inl (raiseForStatus statusCode path
                       (if respBody = [] then None
                        else case Unmarshal L respBody of
                               Inl err \<Rightarrow> Some [''raw'' \<mapsto> JString respBody]
                             | Inr decoded \<Rightarrow> decoded)),
                past @ [HTTPDo req])"
    if "prepare L c method path body params = Inr req"
      and "net attempt = Respond statusCode hdr respBody"
      and "400 \<le> statusCode" "statusCode < 500" "statusCode \<noteq> 429"
    using step_return [where net = net and attempt = attempt,
        OF that(1,2) handle_response_client_error [OF that(3,4,5)]]
    by (simp add: parse_response_def)
  have carried: "(if respBody = [] then None
                  else case json_Unmarshal respBody of
                         Inl err \<Rightarrow> Some [''raw'' \<mapsto> JString respBody]
                       | Inr decoded \<Rightarrow> decoded)
                 = (if respBody = [] then None
                    else case json_decode respBody of
                           Some JNull \<Rightarrow> None
                         | Some (JObject members) \<Rightarrow> Some (map_of (rev members))
                         | _ \<Rightarrow> Some [''raw'' \<mapsto> JString respBody])"
    by (simp add: json_Unmarshal_cases split: option.splits json.splits)
  have nil: "((if respBody = [] then None
               else case json_decode respBody of
                      Some JNull \<Rightarrow> None
                    | Some (JObject members) \<Rightarrow> Some (map_of (rev members))
                    | _ \<Rightarrow> Some [''raw'' \<mapsto> JString respBody]) = None)
              = (respBody = [] \<or> json_decode respBody = Some JNull)"
    by (simp split: option.splits json.splits)
  have decoded: "\<exists>carried.
          request_loop L c method path body params net attempt past
            = Some (Inl (raiseForStatus statusCode path carried), past @ [HTTPDo req])
          \<and> carried
              = (if respBody = [] then None
                 else case json_decode respBody of
                        Some JNull \<Rightarrow> None
                      | Some (JObject members) \<Rightarrow> Some (map_of (rev members))
                      | _ \<Rightarrow> Some [''raw'' \<mapsto> JString respBody])
          \<and> (carried = None) = (respBody = [] \<or> json_decode respBody = Some JNull)
          \<and> (json_decode respBody = Some JNull)
              = (\<exists>r. skip_space respBody = ''null'' @ r \<and> skip_space r = [])"
    if "Unmarshal L = json_Unmarshal"
      and "prepare L c method path body params = Inr req"
      and "net attempt = Respond statusCode hdr respBody"
      and "400 \<le> statusCode" "statusCode < 500" "statusCode \<noteq> 429"
  proof (rule exI [where x = "if respBody = [] then None
                 else case json_decode respBody of
                        Some JNull \<Rightarrow> None
                      | Some (JObject members) \<Rightarrow> Some (map_of (rev members))
                      | _ \<Rightarrow> Some [''raw'' \<mapsto> JString respBody]"], intro conjI)
    show "request_loop L c method path body params net attempt past
            = Some (Inl (raiseForStatus statusCode path
                 (if respBody = [] then None
                  else case json_decode respBody of
                         Some JNull \<Rightarrow> None
                       | Some (JObject members) \<Rightarrow> Some (map_of (rev members))
                       | _ \<Rightarrow> Some [''raw'' \<mapsto> JString respBody])),
                past @ [HTTPDo req])"
      using executor [OF that(2-6)] by (simp only: that(1) carried)
  qed (rule refl, rule nil, rule json_decode_JNull)
  have classifier:
    "((\<forall>m msg. response = Some m \<and> m ''message'' = Some (JString msg) \<longrightarrow> msg = []) \<longrightarrow>
        raiseForStatus 401 path response
          = AuthenticationErr
              \<lparr> Message = ''Authentication failed. Please check your API key.'',
                StatusCode = Some 401, Response = response \<rparr>
        \<and> raiseForStatus 404 path response
          = NotFoundErr
              \<lparr> Message = ''Resource not found: '' @ path,
                StatusCode = Some 404, Response = response \<rparr>
        \<and> raiseForStatus 422 path response
          = ValidationErr
              \<lparr> Message = ''Request validation failed. Please check your request parameters.'',
                StatusCode = Some 422, Response = response \<rparr>)
     \<and> (response = Some m \<and> m ''message'' = Some (JString msg) \<and> msg \<noteq> [] \<longrightarrow>
        raiseForStatus 401 path response
          = AuthenticationErr \<lparr> Message = msg, StatusCode = Some 401, Response = response \<rparr>
        \<and> raiseForStatus 404 path response
          = NotFoundErr \<lparr> Message = msg, StatusCode = Some 404, Response = response \<rparr>
        \<and> raiseForStatus 422 path response
          = ValidationErr \<lparr> Message = msg, StatusCode = Some 422, Response = response \<rparr>)
     \<and> (statusCode \<noteq> 401 \<and> statusCode \<noteq> 404 \<and> statusCode \<noteq> 422 \<longrightarrow>
        raiseForStatus statusCode path response
          = ClientErr
              \<lparr> Message = ''HTTP '' @ fmt_d statusCode @ '': '' @ path,
                StatusCode = Some statusCode, Response = response \<rparr>)"
    using plain override
    by (simp add: raiseForStatus_def Let_def NewAuthenticationError_def NewNotFoundError_def
          NewValidationError_def NewClientError_def)
  show ?thesis
    using classifier executor decoded by blast
qed

text \<open>
  A 401 with no body, a 422 and a 418 with a message, and through the executor a 404
  with a message, with the body \<^verbatim>\<open>null\<close> and with the body \<^verbatim>\<open>[1]\<close>, which is JSON but
  not an object.
\<close>

theorem classifier_witness:
  \<open>raiseForStatus 401 status_path None
     = AuthenticationErr
         \<lparr> Message = ''Authentication failed. Please check your API key.'',
           StatusCode = Some 401, Response = None \<rparr>
   \<and> raiseForStatus 422 ''/api/v3/memory/retrieve''
         (Some [''message'' \<mapsto> JString ''user_id is required''])
     = ValidationErr
         \<lparr> Message = ''user_id is required'', StatusCode = Some 422,
           Response = Some [''message'' \<mapsto> JString ''user_id is required''] \<rparr>
   \<and> raiseForStatus 418 ''/brew'' (Some [''message'' \<mapsto> JString ''short and stout''])
     = ClientErr
         \<lparr> Message = ''HTTP 418: /brew'', StatusCode = Some 418,
           Response = Some [''message'' \<mapsto> JString ''short and stout''] \<rparr>
   \<and> prepare go_stdlib default_client ''GET'' status_path None Map.empty = Inr status_request
   \<and> request_loop go_stdlib default_client ''GET'' status_path None Map.empty
         (script [Respond 404 Map.empty ''{"message":"Task not found"}''] unreachable) 0 []
     = Some (Inl (NotFoundErr
                    \<lparr> Message = ''Task not found'', StatusCode = Some 404,
                      Response = Some [''message'' \<mapsto> JString ''Task not found''] \<rparr>),
             [HTTPDo status_request])
   \<and> Unmarshal go_stdlib = json_Unmarshal
   \<and> request_loop go_stdlib default_client ''GET'' status_path None Map.empty
         (script [Respond 404 Map.empty ''null''] unreachable) 0 []
     = Some (Inl (NotFoundErr
                    \<lparr> Message = ''Resource not found: /api/v3/memory/memorize/status/t1'',
                      StatusCode = Some 404, Response = None \<rparr>),
             [HTTPDo status_request])
   \<and> request_loop go_stdlib default_client ''GET'' status_path None Map.empty
         (script [Respond 404 Map.empty ''[1]''] unreachable) 0 []
     = Some (Inl (NotFoundErr
                    \<lparr> Message = ''Resource not found: /api/v3/memory/memorize/status/t1'',
                      StatusCode = Some 404,
                      Response = Some [''raw'' \<mapsto> JString ''[1]''] \<rparr>),
             [HTTPDo status_request])\<close>
proof -
  note cl = classifier_maps_status_and_carries_body
  have a: "raiseForStatus 401 status_path None
     = AuthenticationErr
         \<lparr> Message = ''Authentication failed. Please check your API key.'',
           StatusCode = Some 401, Response = None \<rparr>"
    using cl [of None status_path, THEN conjunct1] by simp
  have b: "raiseForStatus 422 ''/api/v3/memory/retrieve''
         (Some [''message'' \<mapsto> JString ''user_id is required''])
     = ValidationErr
         \<lparr> Message = ''user_id is required'', StatusCode = Some 422,
           Response = Some [''message'' \<mapsto> JString ''user_id is required''] \<rparr>"
    using cl [of "Some [''message'' \<mapsto> JString ''user_id is required'']"
        "''/api/v3/memory/retrieve''" "[''message'' \<mapsto> JString ''user_id is required'']"
        "''user_id is required''", THEN conjunct2, THEN conjunct1]
    by simp
  have c: "raiseForStatus 418 ''/brew'' (Some [''message'' \<mapsto> JString ''short and stout''])
     = ClientErr
         \<lparr> Message = ''HTTP 418: /brew'', StatusCode = Some 418,
           Response = Some [''message'' \<mapsto> JString ''short and stout''] \<rparr>"
    using cl [of "Some [''message'' \<mapsto> JString ''short and stout'']" "''/brew''" _ _ 418,
        THEN conjunct2, THEN conjunct2, THEN conjunct1]
    by (simp add: fmt_d_examples)
  have d: \<open>request_loop go_stdlib default_client ''GET'' status_path None Map.empty
         (script [Respond 404 Map.empty ''{"message":"Task not found"}''] unreachable) 0 []
     = Some (Inl (NotFoundErr
                    \<lparr> Message = ''Task not found'', StatusCode = Some 404,
                      Response = Some [''message'' \<mapsto> JString ''Task not found''] \<rparr>),
             [HTTPDo status_request])\<close>
    using cl [of "Some [''message'' \<mapsto> JString ''Task not found'']" status_path
        "[''message'' \<mapsto> JString ''Task not found'']" "''Task not found''" 404
        go_stdlib default_client "''GET''" None Map.empty status_request
        \<open>script [Respond 404 Map.empty ''{"message":"Task not found"}''] unreachable\<close>
        0 Map.empty \<open>''{"message":"Task not found"}''\<close> "[]",
        THEN conjunct2, THEN conjunct2, THEN conjunct2, THEN conjunct1]
      cl [of "Some [''message'' \<mapsto> JString ''Task not found'']" status_path
        "[''message'' \<mapsto> JString ''Task not found'']" "''Task not found''",
        THEN conjunct2, THEN conjunct1]
    by (simp add: prepare_status_request script_def Unmarshal_not_found)
  have e: "request_loop go_stdlib default_client ''GET'' status_path None Map.empty
         (script [Respond 404 Map.empty ''null''] unreachable) 0 []
     = Some (Inl (NotFoundErr
                    \<lparr> Message = ''Resource not found: /api/v3/memory/memorize/status/t1'',
                      StatusCode = Some 404, Response = None \<rparr>),
             [HTTPDo status_request])"
    using cl [of None status_path _ _ 404
        go_stdlib default_client "''GET''" None Map.empty status_request
        "script [Respond 404 Map.empty ''null''] unreachable"
        0 Map.empty "''null''" "[]",
        THEN conjunct2, THEN conjunct2, THEN conjunct2, THEN conjunct2]
      cl [of None status_path, THEN conjunct1]
    by (simp add: prepare_status_request [unfolded status_path_def] script_def go_stdlib_simps
          decode_null status_path_def)
  have f: "request_loop go_stdlib default_client ''GET'' status_path None Map.empty
         (script [Respond 404 Map.empty ''[1]''] unreachable) 0 []
     = Some (Inl (NotFoundErr
                    \<lparr> Message = ''Resource not found: /api/v3/memory/memorize/status/t1'',
                      StatusCode = Some 404,
                      Response = Some [''raw'' \<mapsto> JString ''[1]''] \<rparr>),
             [HTTPDo status_request])"
    using cl [of "Some [''raw'' \<mapsto> JString ''[1]'']" status_path _ _ 404
        go_stdlib default_client "''GET''" None Map.empty status_request
        "script [Respond 404 Map.empty ''[1]''] unreachable"
        0 Map.empty "''[1]''" "[]",
        THEN conjunct2, THEN conjunct2, THEN conjunct2, THEN conjunct2]
      cl [of "Some [''raw'' \<mapsto> JString ''[1]'']" status_path, THEN conjunct1]
    by (simp add: prepare_status_request [unfolded status_path_def] script_def go_stdlib_simps
          decode_array status_path_def)
  show ?thesis
    using a b c d e f prepare_status_request by (simp add: go_stdlib_simps)
qed

subsection \<open>The client's own retry count\<close>

text \<open>
  No part of the loop body reads \<^verbatim>\<open>maxRetries\<close>; the loop is partial, so the equality
  of two runs is by rule induction on a run that returns, in both directions.
\<close>

lemma handle_response_maxRetries:
  "handle_response L (c\<lparr>maxRetries := n\<rparr>) = handle_response L c"
  by (intro ext) (simp add: handle_response_def Let_def)

lemma prepare_maxRetries:
  "prepare L (c\<lparr>maxRetries := n\<rparr>) = prepare L c"
  by (intro ext) (simp add: prepare_def defaultHeaders_def Let_def split: option.splits sum.splits)

lemma attempt_body_maxRetries:
  "attempt_body L (c\<lparr>maxRetries := n\<rparr>) = attempt_body L c"
  by (intro ext)
     (simp add: attempt_body_def handle_response_maxRetries prepare_maxRetries
           split: sum.splits http_result.splits)

lemma request_loop_maxRetries_Some:
  assumes "request_loop L c method path body params net attempt past = Some y"
  shows "request_loop L (c\<lparr>maxRetries := n\<rparr>) method path body params net attempt past = Some y"
proof -
  have "\<forall>n. request_loop L (c\<lparr>maxRetries := n\<rparr>) method path body params net attempt past
          = Some y"
    using assms
  proof (rule request_loop.raw_induct
      [where P = "\<lambda>L c method path body params net attempt past y.
         \<forall>n. request_loop L (c\<lparr>maxRetries := n\<rparr>) method path body params net attempt past
               = Some y", rotated])
    fix rl :: "'a stdlib \<Rightarrow> Client \<Rightarrow> string \<Rightarrow> string \<Rightarrow> 'a option \<Rightarrow> (string \<rightharpoonup> string)
                 \<Rightarrow> (int \<Rightarrow> http_result) \<Rightarrow> int \<Rightarrow> event list \<Rightarrow> (result \<times> event list) option"
      and L c m p body params net attempt past y
    assume IH: "\<And>L c m p body params net attempt past y.
       rl L c m p body params net attempt past = Some y \<Longrightarrow>
       \<forall>n. request_loop L (c\<lparr>maxRetries := n\<rparr>) m p body params net attempt past = Some y"
      and step: "(case attempt_body L c m p body params (net attempt) attempt of
           (evs, Return r) \<Rightarrow> Some (r, past @ evs)
         | (evs, Continue) \<Rightarrow> rl L c m p body params net (attempt + 1) (past @ evs))
        = Some y"
    show "\<forall>n. request_loop L (c\<lparr>maxRetries := n\<rparr>) m p body params net attempt past
            = Some y"
    proof
      fix n
      show "request_loop L (c\<lparr>maxRetries := n\<rparr>) m p body params net attempt past
              = Some y"
        using step IH
        by (subst request_loop.simps)
           (auto simp add: attempt_body_maxRetries split: prod.splits loop_step.splits)
    qed
  qed
  then show ?thesis by blast
qed

lemma request_loop_maxRetries:
  "request_loop L (c\<lparr>maxRetries := n\<rparr>) method path body params net attempt past
     = request_loop L c method path body params net attempt past"
proof (cases "request_loop L c method path body params net attempt past")
  case (Some y)
  then show ?thesis by (simp add: request_loop_maxRetries_Some)
next
  case None
  show ?thesis
  proof (cases "request_loop L (c\<lparr>maxRetries := n\<rparr>) method path body params net attempt past")
    case None': None
    with None show ?thesis by simp
  next
    case (Some y)
    from request_loop_maxRetries_Some [OF Some, of "maxRetries c"]
    have "request_loop L c method path body params net attempt past = Some y" by simp
    with None show ?thesis by simp
  qed
qed

text \<open>
  C9. The loop of \<open>request\<close> never reads the field \<^verbatim>\<open>maxRetries\<close> that
  \<^verbatim>\<open>WithMaxRetries\<close> sets: two clients that differ only in it run the same requests,
  sleep the same times and return the same result (or both never return). The retry
  ceiling is the policy's; that of the default configuration is 3.
\<close>

theorem client_maxRetries_is_not_consulted:
  "request L (WithMaxRetries n c) method path body params net
     = request L (WithMaxRetries m c) method path body params net
   \<and> retryPolicy (WithMaxRetries n c) = retryPolicy c
   \<and> MaxRetries DefaultRetryConfig = 3"
  by (simp add: request_def WithMaxRetries_def request_loop_maxRetries DefaultRetryConfig_def)

end
